theory Spec2Isabelle
  imports Complex_Main "HOL-Library.AList"
begin

section \<open>Errors raised by the modelled Python code\<close>

datatype py_error =
    RuntimeError | KeyError | IntegrityError | InvalidRequestError | UnsupportedMediaType

section \<open>Identity and port binder (bully/id\_generator.py)\<close>

text \<open>
  The operating system decides whether a bind succeeds. It is a parameter of the model:
  for every port number, whether a TCP bind and whether a UDP bind on it succeeds.
\<close>

record port_env =
  tcp_bind_ok :: "int \<Rightarrow> bool"
  udp_bind_ok :: "int \<Rightarrow> bool"

text \<open>
  \<open>_is_port_available(port)\<close>: a temporary TCP bind, then a temporary UDP bind on the same
  port number; an \<open>OSError\<close> of either gives \<open>False\<close>.
\<close>

definition is_port_available :: "port_env \<Rightarrow> int \<Rightarrow> bool" where
  "is_port_available env port =
     (if \<not> tcp_bind_ok env port then False
      else if \<not> udp_bind_ok env port then False
      else True)"

text \<open>The two ports derived from a candidate id, as computed in the loop body.\<close>

definition tcp_port_of :: "int \<Rightarrow> int" where
  "tcp_port_of candidate_id = 5555 + (candidate_id mod 1000)"

definition udp_port_of :: "int \<Rightarrow> int" where
  "udp_port_of candidate_id = 6000 + (candidate_id mod 1000)"

definition id_available :: "port_env \<Rightarrow> int \<Rightarrow> bool" where
  "id_available env candidate_id =
     (is_port_available env (tcp_port_of candidate_id) \<and>
      is_port_available env (udp_port_of candidate_id))"

text \<open>
  \<open>for attempt in range(max_attempts)\<close>: the first argument counts the iterations that
  remain, the second is \<open>attempt\<close>. Leaving the loop raises \<open>RuntimeError\<close>.
\<close>

fun generate_node_id_loop :: "port_env \<Rightarrow> int \<Rightarrow> nat \<Rightarrow> nat \<Rightarrow> py_error + int" where
  "generate_node_id_loop env start_id 0 attempt = Inl RuntimeError"
| "generate_node_id_loop env start_id (Suc remaining) attempt =
     (let candidate_id = start_id + int attempt in
      if id_available env candidate_id then Inr candidate_id
      else generate_node_id_loop env start_id remaining (Suc attempt))"

definition generate_node_id :: "port_env \<Rightarrow> int \<Rightarrow> int \<Rightarrow> py_error + int" where
  "generate_node_id env start_id max_attempts =
     generate_node_id_loop env start_id (nat max_attempts) 0"


section \<open>Python text of integers\<close>

text \<open>
  \<open>str(n)\<close> and the format specification \<open>03d\<close> of Python integers, as the f-strings of
  the sources use them: decimal digits, a leading \<open>-\<close> for negative numbers, and for \<open>03d\<close>
  zero padding to a minimum width of three characters (sign included).
\<close>

definition digit_char :: "nat \<Rightarrow> char" where
  "digit_char d = ''0123456789'' ! (d mod 10)"

fun digits_of :: "nat \<Rightarrow> string" where
  "digits_of n = (if n < 10 then [digit_char n] else digits_of (n div 10) @ [digit_char (n mod 10)])"

declare digits_of.simps [simp del]

definition str_int :: "int \<Rightarrow> string" where
  "str_int i = (if i < 0 then ''-'' @ digits_of (nat (- i)) else digits_of (nat i))"

definition zfill :: "nat \<Rightarrow> string \<Rightarrow> string" where
  "zfill width s = replicate (width - length s) CHR ''0'' @ s"

definition format_03d :: "int \<Rightarrow> string" where
  "format_03d i =
     (if i < 0 then ''-'' @ zfill 2 (digits_of (nat (- i))) else zfill 3 (digits_of (nat i)))"


section \<open>Discovery agent (bully/discovery.py)\<close>

text \<open>
  \<open>time.time()\<close> values are modelled as exact rationals (seconds). A peer record is the
  dictionary stored under a node id in \<open>discovered_nodes\<close>.
\<close>

record node_info =
  host :: string
  tcp_port :: int
  udp_port :: int
  last_seen :: rat

text \<open>
  Callbacks are started on their own threads; the model records which callback was
  started with which arguments, in the order of the starts.
\<close>

datatype callback_event =
    NodeDiscovered int string int int
  | NodeLost int
  | IdCollision int string

text \<open>
  The fields of \<open>NodeDiscovery\<close> that the message handlers and the cleanup task read or
  write. \<open>discovered_nodes\<close> is a Python dictionary: an association list in insertion
  order (\<open>AList.update\<close> overwrites in place or appends, \<open>AList.delete\<close> is \<open>pop\<close>). The
  three callback fields say whether a callback is set.
\<close>

record node_discovery =
  node_id :: int
  node_timeout :: rat
  discovered_nodes :: "(int \<times> node_info) list"
  on_node_discovered :: bool
  on_node_lost :: bool
  on_id_collision :: bool
  started :: "callback_event list"

text \<open>\<open>__init__\<close>: an empty peer table, no callback set.\<close>

definition init_discovery :: "int \<Rightarrow> rat \<Rightarrow> node_discovery" where
  "init_discovery nid timeout =
     \<lparr>node_id = nid, node_timeout = timeout, discovered_nodes = [],
      on_node_discovered = False, on_node_lost = False, on_id_collision = False,
      started = []\<rparr>"

definition set_callbacks :: "node_discovery \<Rightarrow> bool \<Rightarrow> bool \<Rightarrow> bool \<Rightarrow> node_discovery" where
  "set_callbacks self on_discovered on_lost on_collision =
     self\<lparr>on_node_discovered := on_discovered, on_node_lost := on_lost,
          on_id_collision := on_collision\<rparr>"

text \<open>
  A decoded datagram: a JSON object with integer fields; a field is \<open>None\<close> when the key
  is absent (\<open>message.get\<close> returns \<open>None\<close>, \<open>message[...]\<close> raises \<open>KeyError\<close>).
\<close>

record discovery_message =
  msg_type :: "string option"
  msg_node_id :: "int option"
  msg_tcp_port :: "int option"
  msg_udp_port :: "int option"

definition known_node :: "node_discovery \<Rightarrow> int \<Rightarrow> bool" where
  "known_node self nid = (map_of (discovered_nodes self) nid \<noteq> None)"

text \<open>\<open>_remove_node\<close>: pop the entry if present and start \<open>on_node_lost\<close> if it is set.\<close>

definition remove_node :: "node_discovery \<Rightarrow> int \<Rightarrow> node_discovery" where
  "remove_node self nid =
     (if known_node self nid then
        (let self1 = self\<lparr>discovered_nodes := AList.delete nid (discovered_nodes self)\<rparr> in
         if on_node_lost self1 then self1\<lparr>started := started self1 @ [NodeLost nid]\<rparr>
         else self1)
      else self)"

text \<open>\<open>_handle_announce\<close>: upsert the peer with \<open>last_seen = time.time()\<close>.\<close>

definition handle_announce ::
  "node_discovery \<Rightarrow> discovery_message \<Rightarrow> string \<Rightarrow> rat \<Rightarrow> py_error + node_discovery" where
  "handle_announce self message sender_ip now =
     (case msg_node_id message of None \<Rightarrow> Inl KeyError | Some sender_id \<Rightarrow>
      case msg_tcp_port message of None \<Rightarrow> Inl KeyError | Some tcp \<Rightarrow>
      case msg_udp_port message of None \<Rightarrow> Inl KeyError | Some udp \<Rightarrow>
        (let is_new = \<not> known_node self sender_id;
             self1 = self\<lparr>discovered_nodes :=
                       AList.update sender_id
                         \<lparr>host = sender_ip, tcp_port = tcp, udp_port = udp, last_seen = now\<rparr>
                         (discovered_nodes self)\<rparr>
         in if is_new \<and> on_node_discovered self1
            then Inr (self1\<lparr>started := started self1 @ [NodeDiscovered sender_id sender_ip tcp udp]\<rparr>)
            else Inr self1))"

text \<open>\<open>_handle_leave\<close>.\<close>

definition handle_leave :: "node_discovery \<Rightarrow> discovery_message \<Rightarrow> py_error + node_discovery" where
  "handle_leave self message =
     (case msg_node_id message of None \<Rightarrow> Inl KeyError
      | Some sender_id \<Rightarrow> Inr (remove_node self sender_id))"

text \<open>
  \<open>_handle_message(data, addr)\<close>. \<open>data\<close> is \<open>None\<close> when the datagram does not decode to a
  JSON object, \<open>my_ip\<close> is \<open>None\<close> when the host name does not resolve; every exception is
  caught and logged by the handler, which leaves the object as it was.
\<close>

definition handle_message ::
  "node_discovery \<Rightarrow> discovery_message option \<Rightarrow> string \<Rightarrow> string option \<Rightarrow> rat \<Rightarrow> node_discovery" where
  "handle_message self data sender_ip my_ip now =
     (case data of None \<Rightarrow> self
      | Some message \<Rightarrow>
          if msg_node_id message = Some (node_id self) then
            (case my_ip of None \<Rightarrow> self
             | Some ip \<Rightarrow>
                 if sender_ip \<noteq> ip \<and> sender_ip \<noteq> ''127.0.0.1'' \<and> on_id_collision self
                 then self\<lparr>started := started self @ [IdCollision (node_id self) sender_ip]\<rparr>
                 else self)
          else if msg_type message = Some ''ANNOUNCE'' then
            (case handle_announce self message sender_ip now of Inl e \<Rightarrow> self | Inr self1 \<Rightarrow> self1)
          else if msg_type message = Some ''LEAVE'' then
            (case handle_leave self message of Inl e \<Rightarrow> self | Inr self1 \<Rightarrow> self1)
          else self)"

text \<open>
  One pass of \<open>_cleanup_loop\<close> at \<open>current_time\<close>: collect the ids whose
  \<open>time_since_seen > node_timeout\<close>, then remove them one by one.
\<close>

definition nodes_to_remove :: "node_discovery \<Rightarrow> rat \<Rightarrow> int list" where
  "nodes_to_remove self current_time =
     map fst (filter (\<lambda>(nid, info). current_time - last_seen info > node_timeout self)
                     (discovered_nodes self))"

definition cleanup_pass :: "node_discovery \<Rightarrow> rat \<Rightarrow> node_discovery" where
  "cleanup_pass self current_time =
     fold (\<lambda>nid s. remove_node s nid) (nodes_to_remove self current_time) self"

text \<open>\<open>get_discovered_nodes\<close>: the table without \<open>last_seen\<close>.\<close>

definition get_discovered_nodes :: "node_discovery \<Rightarrow> (int \<times> (string \<times> int \<times> int)) list" where
  "get_discovered_nodes self =
     map (\<lambda>(nid, info). (nid, (host info, tcp_port info, udp_port info))) (discovered_nodes self)"

text \<open>
  The states a discovery object reaches from \<open>__init__\<close> by its own methods: setting
  callbacks, handling a datagram, a cleanup pass.
\<close>

inductive reachable :: "node_discovery \<Rightarrow> bool" where
  reach_init: "reachable (init_discovery nid timeout)"
| reach_callbacks: "reachable s \<Longrightarrow> reachable (set_callbacks s d l c)"
| reach_message: "reachable s \<Longrightarrow> reachable (handle_message s data sender_ip my_ip now)"
| reach_cleanup: "reachable s \<Longrightarrow> reachable (cleanup_pass s current_time)"

section \<open>Socket node: locks, local transactions, consensus (Primer entregable.py)\<close>

text \<open>
  The local SQLite store of a socket node, restricted to the tables that
  \<open>verificar_recurso_local\<close> and \<open>ejecutar_transaccion_local\<close> read or write. The schema
  script is not part of the sources; columns are those named in the statements. Row ids of
  \<open>PACIENTES\<close> are assigned as SQLite does for an integer primary key: one more than the
  largest id present.
\<close>

record visita_local =
  vl_folio :: string
  vl_paciente_id :: int
  vl_doctor_id :: int
  vl_cama_id :: int
  vl_sala_id :: int
  vl_timestamp :: rat
  vl_estado :: string

record base_local =
  PACIENTES :: "(int \<times> string \<times> int \<times> string) list"
  DOCTORES :: "int \<rightharpoonup> int"
  CAMAS_ATENCION :: "int \<rightharpoonup> int \<times> int option"
  VISITAS_EMERGENCIA :: "visita_local list"
  CONSECUTIVOS_VISITAS :: "int \<rightharpoonup> int"

definition SERVER_PORT :: int where
  "SERVER_PORT = 5555"

text \<open>
  A node: the dictionary \<open>bloqueos_locales\<close> (key text to the time of locking) and the
  store. \<open>datetime.now()\<close> is a parameter of every operation that reads the clock.
\<close>

record nodo =
  bloqueos_locales :: "string \<rightharpoonup> rat"
  bd :: base_local

text \<open>The key \<open>f"{recurso_tipo}_{recurso_id}"\<close>.\<close>

definition clave_de :: "string \<Rightarrow> int \<Rightarrow> string" where
  "clave_de recurso_tipo recurso_id = recurso_tipo @ ''_'' @ str_int recurso_id"

text \<open>
  \<open>verificar_recurso_local\<close>, as the truth value of what it returns (\<open>None\<close> for a missing
  row or another resource type is false).
\<close>

definition verificar_recurso_local :: "base_local \<Rightarrow> string \<Rightarrow> int \<Rightarrow> bool" where
  "verificar_recurso_local db recurso_tipo recurso_id =
     (if recurso_tipo = ''DOCTOR'' then
        (case DOCTORES db recurso_id of None \<Rightarrow> False | Some disponible \<Rightarrow> disponible = 1)
      else if recurso_tipo = ''CAMA'' then
        (case CAMAS_ATENCION db recurso_id of None \<Rightarrow> False | Some (ocupada, p) \<Rightarrow> ocupada = 0)
      else False)"

text \<open>
  What a remote peer does with one request: it answers with a text, or the connection
  fails or times out (the \<open>except\<close> branch of the caller). The network is a parameter:
  the answer of each address of \<open>NODOS_REMOTOS\<close>.
\<close>

datatype respuesta_remota = Respuesta string | SinRespuesta

type_synonym direccion = "string \<times> int"

type_synonym red = "direccion \<Rightarrow> respuesta_remota"

subsection \<open>Atomic lock request (third version of the file)\<close>

text \<open>
  The loop over \<open>NODOS_REMOTOS\<close> of \<open>solicitar_bloqueo_distribuido\<close>: \<open>None\<close> is the early
  \<open>return False\<close> (a peer answered something else than \<open>BLOQUEO_APROBADO\<close>, or did not
  answer), \<open>Some n\<close> the value of \<open>confirmaciones\<close> when the loop ends.
\<close>

fun pedir_aprobaciones :: "red \<Rightarrow> direccion list \<Rightarrow> nat \<Rightarrow> nat option" where
  "pedir_aprobaciones net [] confirmaciones = Some confirmaciones"
| "pedir_aprobaciones net (peer # peers) confirmaciones =
     (case net peer of
        SinRespuesta \<Rightarrow> None
      | Respuesta respuesta \<Rightarrow>
          if respuesta = ''BLOQUEO_APROBADO''
          then pedir_aprobaciones net peers (confirmaciones + 1)
          else None)"

definition solicitar_bloqueo_distribuido ::
  "red \<Rightarrow> direccion list \<Rightarrow> rat \<Rightarrow> nodo \<Rightarrow> string \<Rightarrow> int \<Rightarrow> bool \<times> nodo" where
  "solicitar_bloqueo_distribuido net NODOS_REMOTOS now self recurso_tipo recurso_id =
     (if \<not> verificar_recurso_local (bd self) recurso_tipo recurso_id then (False, self)
      else if NODOS_REMOTOS = [] then
        (True, self\<lparr>bloqueos_locales :=
                 (bloqueos_locales self)(clave_de recurso_tipo recurso_id \<mapsto> now)\<rparr>)
      else
        (case pedir_aprobaciones net NODOS_REMOTOS 0 of
           None \<Rightarrow> (False, self)
         | Some confirmaciones \<Rightarrow>
             if confirmaciones = length NODOS_REMOTOS then
               (True, self\<lparr>bloqueos_locales :=
                        (bloqueos_locales self)(clave_de recurso_tipo recurso_id \<mapsto> now)\<rparr>)
             else (False, self)))"

text \<open>
  \<open>liberar_bloqueo_distribuido\<close>, local effect: the key is deleted if present. The
  notifications to the peers change nothing on this node.
\<close>

definition liberar_bloqueo_distribuido :: "nodo \<Rightarrow> string \<Rightarrow> int \<Rightarrow> nodo" where
  "liberar_bloqueo_distribuido self recurso_tipo recurso_id =
     (let clave = clave_de recurso_tipo recurso_id in
      if clave \<in> dom (bloqueos_locales self)
      then self\<lparr>bloqueos_locales := (bloqueos_locales self)(clave := None)\<rparr>
      else self)"

subsection \<open>Lock request with a quorum (second version of the file)\<close>

text \<open>
  The second version counts the \<open>BLOQUEO_OK\<close> answers of all peers (no early return) and
  decides with \<open>confirmaciones >= len(NODOS_REMOTOS) // 2 or not NODOS_REMOTOS\<close>.
\<close>

fun contar_bloqueo_ok :: "red \<Rightarrow> direccion list \<Rightarrow> nat \<Rightarrow> nat" where
  "contar_bloqueo_ok net [] confirmaciones = confirmaciones"
| "contar_bloqueo_ok net (peer # peers) confirmaciones =
     (case net peer of
        SinRespuesta \<Rightarrow> contar_bloqueo_ok net peers confirmaciones
      | Respuesta respuesta \<Rightarrow>
          if respuesta = ''BLOQUEO_OK''
          then contar_bloqueo_ok net peers (confirmaciones + 1)
          else contar_bloqueo_ok net peers confirmaciones)"

definition solicitar_bloqueo_distribuido_v2 ::
  "red \<Rightarrow> direccion list \<Rightarrow> rat \<Rightarrow> nodo \<Rightarrow> string \<Rightarrow> int \<Rightarrow> bool \<times> nodo" where
  "solicitar_bloqueo_distribuido_v2 net NODOS_REMOTOS now self recurso_tipo recurso_id =
     (if \<not> verificar_recurso_local (bd self) recurso_tipo recurso_id then (False, self)
      else
        (let clave = clave_de recurso_tipo recurso_id in
         if clave \<in> dom (bloqueos_locales self) then (False, self)
         else
           (let self1 = self\<lparr>bloqueos_locales := (bloqueos_locales self)(clave \<mapsto> now)\<rparr>;
                confirmaciones = contar_bloqueo_ok net NODOS_REMOTOS 0
            in if confirmaciones \<ge> length NODOS_REMOTOS div 2 \<or> NODOS_REMOTOS = []
               then (True, self1)
               else (False,
                     if clave \<in> dom (bloqueos_locales self1)
                     then self1\<lparr>bloqueos_locales := (bloqueos_locales self1)(clave := None)\<rparr>
                     else self1))))"

subsection \<open>Local transactions and majority consensus (third version of the file)\<close>

text \<open>The commands of \<open>ejecutar_transaccion_local\<close>, by their \<open>accion\<close> and \<open>datos\<close>.\<close>

datatype transaccion =
    INSERTAR_PACIENTE string int "string option"
  | ASIGNAR_RECURSOS string int int int
  | CERRAR_VISITA string
  | INCREMENTAR_CONSECUTIVO
  | OTRA_ACCION string

text \<open>What the Python functions return: an integer, a boolean or \<open>None\<close>.\<close>

datatype py_valor = Entero int | Booleano bool | Ninguno

fun verdadero :: "py_valor \<Rightarrow> bool" where
  "verdadero (Entero i) = (i \<noteq> 0)"
| "verdadero (Booleano b) = b"
| "verdadero Ninguno = False"

definition siguiente_rowid :: "(int \<times> 'a) list \<Rightarrow> int" where
  "siguiente_rowid filas = (if filas = [] then 1 else Max (set (map fst filas)) + 1)"

definition ejecutar_transaccion_local :: "rat \<Rightarrow> transaccion \<Rightarrow> base_local \<Rightarrow> py_valor \<times> base_local" where
  "ejecutar_transaccion_local now comando db =
     (case comando of
        INSERTAR_PACIENTE nombre edad contacto \<Rightarrow>
          (let paciente_id = siguiente_rowid (PACIENTES db) in
           (Entero paciente_id,
            db\<lparr>PACIENTES := PACIENTES db @
                  [(paciente_id, nombre, edad, case contacto of None \<Rightarrow> '''' | Some c \<Rightarrow> c)]\<rparr>))
      | ASIGNAR_RECURSOS folio paciente_id doctor_id cama_id \<Rightarrow>
          if length (filter (\<lambda>v. vl_folio v = folio) (VISITAS_EMERGENCIA db)) > 0
          then (Booleano False, db)
          else
            (Booleano True,
             db\<lparr>DOCTORES :=
                  (if doctor_id \<in> dom (DOCTORES db) then (DOCTORES db)(doctor_id \<mapsto> 0)
                   else DOCTORES db),
                CAMAS_ATENCION :=
                  (if cama_id \<in> dom (CAMAS_ATENCION db)
                   then (CAMAS_ATENCION db)(cama_id \<mapsto> (1, Some paciente_id))
                   else CAMAS_ATENCION db),
                VISITAS_EMERGENCIA := VISITAS_EMERGENCIA db @
                  [\<lparr>vl_folio = folio, vl_paciente_id = paciente_id, vl_doctor_id = doctor_id,
                    vl_cama_id = cama_id, vl_sala_id = SERVER_PORT, vl_timestamp = now,
                    vl_estado = ''En tratamiento''\<rparr>]\<rparr>)
      | CERRAR_VISITA folio \<Rightarrow>
          (case filter (\<lambda>v. vl_folio v = folio) (VISITAS_EMERGENCIA db) of
             [] \<Rightarrow> (Booleano False, db)
           | visita # otras \<Rightarrow>
               (Booleano True,
                db\<lparr>DOCTORES :=
                     (if vl_doctor_id visita \<in> dom (DOCTORES db)
                      then (DOCTORES db)(vl_doctor_id visita \<mapsto> 1) else DOCTORES db),
                   CAMAS_ATENCION :=
                     (if vl_cama_id visita \<in> dom (CAMAS_ATENCION db)
                      then (CAMAS_ATENCION db)(vl_cama_id visita \<mapsto> (0, None))
                      else CAMAS_ATENCION db),
                   VISITAS_EMERGENCIA :=
                     map (\<lambda>v. if vl_folio v = folio then v\<lparr>vl_estado := ''Cerrada''\<rparr> else v)
                         (VISITAS_EMERGENCIA db)\<rparr>))
      | INCREMENTAR_CONSECUTIVO \<Rightarrow>
          (case CONSECUTIVOS_VISITAS db SERVER_PORT of
             Some ultimo_consecutivo \<Rightarrow>
               (let nuevo_consecutivo = ultimo_consecutivo + 1 in
                (Entero nuevo_consecutivo,
                 db\<lparr>CONSECUTIVOS_VISITAS :=
                      (CONSECUTIVOS_VISITAS db)(SERVER_PORT \<mapsto> nuevo_consecutivo)\<rparr>))
           | None \<Rightarrow>
               (Entero 1,
                db\<lparr>CONSECUTIVOS_VISITAS := (CONSECUTIVOS_VISITAS db)(SERVER_PORT \<mapsto> 1)\<rparr>))
      | OTRA_ACCION accion \<Rightarrow> (Ninguno, db))"

text \<open>The counter of the node's own sala, 0 when \<open>CONSECUTIVOS_VISITAS\<close> has no row.\<close>

definition ultimo_consecutivo_de :: "base_local \<Rightarrow> int" where
  "ultimo_consecutivo_de db =
     (case CONSECUTIVOS_VISITAS db SERVER_PORT of None \<Rightarrow> 0 | Some u \<Rightarrow> u)"

text \<open>
  The loop of \<open>propagar_transaccion_con_consenso\<close>: every peer is asked, an answer
  \<open>CONSENSO_OK\<close> counts, anything else (another answer, no answer) does not.
\<close>

fun contar_consenso_ok :: "red \<Rightarrow> direccion list \<Rightarrow> nat \<Rightarrow> nat" where
  "contar_consenso_ok net [] confirmaciones = confirmaciones"
| "contar_consenso_ok net (peer # peers) confirmaciones =
     (case net peer of
        SinRespuesta \<Rightarrow> contar_consenso_ok net peers confirmaciones
      | Respuesta respuesta \<Rightarrow>
          if respuesta = ''CONSENSO_OK''
          then contar_consenso_ok net peers (confirmaciones + 1)
          else contar_consenso_ok net peers confirmaciones)"

definition propagar_transaccion_con_consenso ::
  "red \<Rightarrow> direccion list \<Rightarrow> rat \<Rightarrow> transaccion \<Rightarrow> base_local \<Rightarrow> py_valor \<times> base_local" where
  "propagar_transaccion_con_consenso net NODOS_REMOTOS now comando db =
     (if NODOS_REMOTOS = [] then ejecutar_transaccion_local now comando db
      else
        (let confirmaciones = contar_consenso_ok net NODOS_REMOTOS 0;
             total_nodos = length NODOS_REMOTOS;
             umbral_consenso = (total_nodos div 2) + 1
         in if confirmaciones \<ge> umbral_consenso then
              (let (resultado, db1) = ejecutar_transaccion_local now comando db in
               if verdadero resultado then (Booleano True, db1) else (Booleano False, db1))
            else (Booleano False, db)))"

subsection \<open>Connection handler (third version of the file)\<close>

text \<open>
  A received message: a lock request, a release, a transaction command, a JSON object
  with another \<open>accion\<close>, or bytes that do not decode to the expected object (the handler's
  \<open>except\<close> branch answers \<open>ERROR\<close>). The empty message gets no answer.
\<close>

datatype mensaje =
    SOLICITAR_BLOQUEO_ATOMICO string int
  | LIBERAR_BLOQUEO string int
  | TRANSACCION transaccion
  | ACCION_DESCONOCIDA
  | MALFORMADO
  | VACIO

definition handle_client :: "rat \<Rightarrow> mensaje \<Rightarrow> nodo \<Rightarrow> string option \<times> nodo" where
  "handle_client now message self =
     (case message of
        VACIO \<Rightarrow> (None, self)
      | MALFORMADO \<Rightarrow> (Some ''ERROR'', self)
      | SOLICITAR_BLOQUEO_ATOMICO recurso_tipo recurso_id \<Rightarrow>
          (let clave = clave_de recurso_tipo recurso_id in
           if clave \<in> dom (bloqueos_locales self) then (Some ''BLOQUEO_RECHAZADO'', self)
           else if \<not> verificar_recurso_local (bd self) recurso_tipo recurso_id
             then (Some ''BLOQUEO_RECHAZADO'', self)
           else (Some ''BLOQUEO_APROBADO'',
                 self\<lparr>bloqueos_locales := (bloqueos_locales self)(clave \<mapsto> now)\<rparr>))
      | LIBERAR_BLOQUEO recurso_tipo recurso_id \<Rightarrow>
          (let clave = clave_de recurso_tipo recurso_id in
           (Some ''BLOQUEO_LIBERADO'',
            if clave \<in> dom (bloqueos_locales self)
            then self\<lparr>bloqueos_locales := (bloqueos_locales self)(clave := None)\<rparr>
            else self))
      | TRANSACCION comando \<Rightarrow>
          (case comando of
             OTRA_ACCION accion \<Rightarrow> (None, self)
           | _ \<Rightarrow>
             (let (resultado, db1) = ejecutar_transaccion_local now comando (bd self) in
              (Some (if verdadero resultado then ''CONSENSO_OK'' else ''CONSENSO_RECHAZADO''),
               self\<lparr>bd := db1\<rparr>)))
      | ACCION_DESCONOCIDA \<Rightarrow> (None, self))"

text \<open>
  Everything that touches \<open>bloqueos_locales\<close> on a node: the requests it handles for its
  peers and its own lock requests and releases, each at the time its clock shows.
\<close>

datatype evento =
    Recibe rat mensaje
  | Solicita rat red "direccion list" string int
  | Libera string int

fun paso :: "evento \<Rightarrow> nodo \<Rightarrow> nodo" where
  "paso (Recibe now message) self = snd (handle_client now message self)"
| "paso (Solicita now net NODOS_REMOTOS recurso_tipo recurso_id) self =
     snd (solicitar_bloqueo_distribuido net NODOS_REMOTOS now self recurso_tipo recurso_id)"
| "paso (Libera recurso_tipo recurso_id) self =
     liberar_bloqueo_distribuido self recurso_tipo recurso_id"

definition ejecutar_eventos :: "evento list \<Rightarrow> nodo \<Rightarrow> nodo" where
  "ejecutar_eventos eventos self = fold paso eventos self"

text \<open>The events that release a given key: a release message or a local release of it.\<close>

fun libera_clave :: "string \<Rightarrow> evento \<Rightarrow> bool" where
  "libera_clave clave (Recibe now (LIBERAR_BLOQUEO recurso_tipo recurso_id)) =
     (clave_de recurso_tipo recurso_id = clave)"
| "libera_clave clave (Libera recurso_tipo recurso_id) =
     (clave_de recurso_tipo recurso_id = clave)"
| "libera_clave clave _ = False"


section \<open>Leader write path and replication receiver (models.py, routes/cluster\_api.py)\<close>

text \<open>
  The rows of the relational store that the two endpoints read or write. Dates
  (\<open>datetime.utcnow().date()\<close>) are day numbers, timestamps are seconds.
\<close>

record doctor =
  d_nombre :: string
  disponible :: bool

record cama =
  numero :: int
  ocupada :: bool
  cama_id_paciente :: "int option"

record visita_emergencia =
  folio :: "string option"
  id_paciente :: int
  id_doctor :: int
  id_cama :: int
  id_trabajador :: int
  id_sala :: int
  sintomas :: string
  diagnostico :: "string option"
  estado :: string
  timestamp :: rat
  fecha_cierre :: "rat option"

record consecutivo =
  cs_id_sala :: int
  cs_fecha :: int
  cs_consecutivo :: int

record almacen =
  doctores :: "int \<rightharpoonup> doctor"
  camas :: "int \<rightharpoonup> cama"
  pacientes :: "int set"
  trabajadores :: "int set"
  visitas :: "visita_emergencia list"
  consecutivos :: "consecutivo list"

text \<open>
  \<open>get_next_consecutivo(id_sala)\<close>: the first row of today for the sala is incremented, or
  a row with value 1 is created.
\<close>

fun incrementar_primero :: "int \<Rightarrow> int \<Rightarrow> consecutivo list \<Rightarrow> consecutivo list" where
  "incrementar_primero sala hoy [] = []"
| "incrementar_primero sala hoy (r # rs) =
     (if cs_id_sala r = sala \<and> cs_fecha r = hoy
      then r\<lparr>cs_consecutivo := cs_consecutivo r + 1\<rparr> # rs
      else r # incrementar_primero sala hoy rs)"

definition get_next_consecutivo :: "int \<Rightarrow> int \<Rightarrow> almacen \<Rightarrow> int \<times> almacen" where
  "get_next_consecutivo hoy sala st =
     (case find (\<lambda>r. cs_id_sala r = sala \<and> cs_fecha r = hoy) (consecutivos st) of
        None \<Rightarrow>
          (1, st\<lparr>consecutivos := consecutivos st @
                   [\<lparr>cs_id_sala = sala, cs_fecha = hoy, cs_consecutivo = 1\<rparr>]\<rparr>)
      | Some r \<Rightarrow>
          (cs_consecutivo r + 1,
           st\<lparr>consecutivos := incrementar_primero sala hoy (consecutivos st)\<rparr>))"

text \<open>
  The value of the sequence of a sala on a day: the counter of its first row, 0 when there
  is no row yet. It is the value the last call of \<open>get_next_consecutivo\<close> returned.
\<close>

definition consecutivo_actual :: "int \<Rightarrow> int \<Rightarrow> almacen \<Rightarrow> int" where
  "consecutivo_actual hoy sala st =
     (case find (\<lambda>r. cs_id_sala r = sala \<and> cs_fecha r = hoy) (consecutivos st) of
        None \<Rightarrow> 0 | Some r \<Rightarrow> cs_consecutivo r)"

text \<open>
  \<open>db.session.flush()\<close>: a flush that is asked for while the session is already flushing
  raises \<open>InvalidRequestError\<close> ("Session is already flushing").
\<close>

definition session_flush :: "bool \<Rightarrow> py_error + unit" where
  "session_flush flushing = (if flushing then Inl InvalidRequestError else Inr ())"

text \<open>
  \<open>get_next_consecutivo\<close> as it runs in a session that is flushing or not: the row is
  looked up and changed as above, then both branches call \<open>db.session.flush()\<close> before they
  return. Called on its own the flush succeeds and the call is \<open>get_next_consecutivo\<close>;
  called from a \<open>before_insert\<close> listener the session is in its flush and the call raises.
\<close>

definition get_next_consecutivo_sesion ::
  "bool \<Rightarrow> int \<Rightarrow> int \<Rightarrow> almacen \<Rightarrow> py_error + (int \<times> almacen)" where
  "get_next_consecutivo_sesion flushing hoy sala st =
     (let (c, st1) = get_next_consecutivo hoy sala st in
      case session_flush flushing of
        Inl e \<Rightarrow> Inl e
      | Inr u \<Rightarrow> Inr (c, st1))"

text \<open>
  The \<open>before_insert\<close> listener \<open>generate_folio\<close>, which runs inside the flush of the
  commit: a target whose folio is \<open>None\<close> or empty asks for the next consecutivo and would
  get \<open>f"{id_paciente}+{id_doctor}+{id_sala}+{consecutivo:03d}"\<close>; a target with a folio is
  left as it is.
\<close>

definition folio_vacio :: "string option \<Rightarrow> bool" where
  "folio_vacio f = (f = None \<or> f = Some '''')"

definition generate_folio ::
  "int \<Rightarrow> visita_emergencia \<Rightarrow> almacen \<Rightarrow> py_error + (visita_emergencia \<times> almacen)" where
  "generate_folio hoy target st =
     (if folio_vacio (folio target) then
        (case get_next_consecutivo_sesion True hoy (id_sala target) st of
           Inl e \<Rightarrow> Inl e
         | Inr (c, st1) \<Rightarrow>
             Inr (target\<lparr>folio := Some (str_int (id_paciente target) @ ''+'' @
                                        str_int (id_doctor target) @ ''+'' @
                                        str_int (id_sala target) @ ''+'' @ format_03d c)\<rparr>,
                  st1))
      else Inr (target, st))"

text \<open>
  \<open>db.session.add(visita); db.session.commit()\<close>: the listener runs, then the row is
  inserted; the unique constraint on \<open>folio\<close> raises \<open>IntegrityError\<close>. An exception of the
  listener leaves the commit.
\<close>

definition insertar_visita ::
  "int \<Rightarrow> visita_emergencia \<Rightarrow> almacen \<Rightarrow> py_error + (visita_emergencia \<times> almacen)" where
  "insertar_visita hoy target st =
     (case generate_folio hoy target st of
        Inl e \<Rightarrow> Inl e
      | Inr (v, st1) \<Rightarrow>
          if folio v \<in> set (map folio (visitas st1)) then Inl IntegrityError
          else Inr (v, st1\<lparr>visitas := visitas st1 @ [v]\<rparr>))"

text \<open>
  The JSON body of \<open>POST /create-visit\<close>: a JSON object, each required field present or
  not, with or without other keys. The endpoint gets \<open>None\<close> when the request carries no
  JSON body: \<open>request.get_json()\<close> raises, and the handler's \<open>except\<close> answers 500. The
  answer is the status code with the folio, the error text, or the exception that was
  caught.
\<close>

record solicitud_visita =
  s_id_paciente :: "int option"
  s_id_doctor :: "int option"
  s_id_cama :: "int option"
  s_id_trabajador :: "int option"
  s_id_sala :: "int option"
  s_sintomas :: "string option"
  s_otras_claves :: bool

datatype cuerpo = Exito string | Fallo string | Excepcion py_error

definition campos_faltantes :: "solicitud_visita \<Rightarrow> string list" where
  "campos_faltantes d =
     (if s_id_paciente d = None then [''id_paciente''] else []) @
     (if s_id_doctor d = None then [''id_doctor''] else []) @
     (if s_id_cama d = None then [''id_cama''] else []) @
     (if s_id_trabajador d = None then [''id_trabajador''] else []) @
     (if s_id_sala d = None then [''id_sala''] else []) @
     (if s_sintomas d = None then [''sintomas''] else [])"

text \<open>\<open>not data\<close>: the empty object.\<close>

definition cuerpo_vacio :: "solicitud_visita \<Rightarrow> bool" where
  "cuerpo_vacio d = (length (campos_faltantes d) = 6 \<and> \<not> s_otras_claves d)"

fun join_comma :: "string list \<Rightarrow> string" where
  "join_comma [] = ''''"
| "join_comma [x] = x"
| "join_comma (x # y # zs) = x @ '', '' @ join_comma (y # zs)"

text \<open>
  \<open>create_visit_distributed\<close>. Everything after the field validation runs under
  \<open>visit_creation_lock\<close>, so it is one step on the store. An exception (of the listener, or
  the \<open>IntegrityError\<close> of the insert) rolls the session back and answers 500. The
  replication to the other nodes does not touch the leader's store nor the answer.
\<close>

definition create_visit_distributed ::
  "int \<Rightarrow> rat \<Rightarrow> solicitud_visita option \<Rightarrow> almacen \<Rightarrow> (nat \<times> cuerpo) \<times> almacen" where
  "create_visit_distributed hoy now data st =
     (case data of None \<Rightarrow> ((500, Excepcion UnsupportedMediaType), st)
      | Some d \<Rightarrow>
      if cuerpo_vacio d then ((400, Fallo ''No data provided''), st)
      else if campos_faltantes d \<noteq> [] then
        ((400, Fallo (''Missing required fields: '' @ join_comma (campos_faltantes d))), st)
      else
        (let pid = the (s_id_paciente d); did = the (s_id_doctor d); cid = the (s_id_cama d);
             tid = the (s_id_trabajador d); sid = the (s_id_sala d)
         in
         case doctores st did of
           None \<Rightarrow> ((404, Fallo (''Doctor '' @ str_int did @ '' not found'')), st)
         | Some doc \<Rightarrow>
             if \<not> disponible doc
             then ((409, Fallo (''Doctor '' @ d_nombre doc @ '' is not available'')), st)
             else
               (case camas st cid of
                  None \<Rightarrow> ((404, Fallo (''Bed '' @ str_int cid @ '' not found'')), st)
                | Some cam \<Rightarrow>
                    if ocupada cam
                    then ((409, Fallo (''Bed '' @ str_int (numero cam) @ '' is occupied'')), st)
                    else if pid \<notin> pacientes st
                      then ((404, Fallo (''Patient '' @ str_int pid @ '' not found'')), st)
                    else if tid \<notin> trabajadores st
                      then ((404, Fallo (''Social worker '' @ str_int tid @ '' not found'')), st)
                    else
                      (let visita = \<lparr>folio = None, id_paciente = pid, id_doctor = did,
                                      id_cama = cid, id_trabajador = tid, id_sala = sid,
                                      sintomas = the (s_sintomas d), diagnostico = None,
                                      estado = ''activa'', timestamp = now,
                                      fecha_cierre = None\<rparr>;
                           st1 = st\<lparr>doctores := (doctores st)(did \<mapsto> doc\<lparr>disponible := False\<rparr>),
                                   camas := (camas st)(cid \<mapsto>
                                     cam\<lparr>ocupada := True, cama_id_paciente := Some pid\<rparr>)\<rparr>
                       in case insertar_visita hoy visita st1 of
                            Inl e \<Rightarrow> ((500, Excepcion e), st)
                          | Inr (v, st2) \<Rightarrow> ((201, Exito (the (folio v))), st2)))))"

text \<open>
  \<open>replicate_visit\<close>. The body is a full visit record; \<open>timestamp\<close> and \<open>fecha_cierre\<close> may be
  absent. A stored visit with the same folio answers 200 without a change.
\<close>

record visita_replicada =
  r_folio :: "string option"
  r_id_paciente :: int
  r_id_doctor :: int
  r_id_cama :: int
  r_id_trabajador :: int
  r_id_sala :: int
  r_sintomas :: string
  r_diagnostico :: "string option"
  r_estado :: string
  r_timestamp :: "rat option"
  r_fecha_cierre :: "rat option"

definition replicate_visit ::
  "int \<Rightarrow> rat \<Rightarrow> visita_replicada \<Rightarrow> almacen \<Rightarrow> (nat \<times> bool) \<times> almacen" where
  "replicate_visit hoy now d st =
     (case find (\<lambda>v. folio v = r_folio d) (visitas st) of
        Some existing_visit \<Rightarrow> ((200, True), st)
      | None \<Rightarrow>
          (let visita = \<lparr>folio = r_folio d, id_paciente = r_id_paciente d,
                          id_doctor = r_id_doctor d, id_cama = r_id_cama d,
                          id_trabajador = r_id_trabajador d, id_sala = r_id_sala d,
                          sintomas = r_sintomas d, diagnostico = r_diagnostico d,
                          estado = r_estado d,
                          timestamp = (case r_timestamp d of Some t \<Rightarrow> t | None \<Rightarrow> now),
                          fecha_cierre = r_fecha_cierre d\<rparr>;
               st1 = st\<lparr>doctores :=
                         (case doctores st (r_id_doctor d) of
                            None \<Rightarrow> doctores st
                          | Some doc \<Rightarrow> (doctores st)(r_id_doctor d \<mapsto> doc\<lparr>disponible := False\<rparr>)),
                       camas :=
                         (case camas st (r_id_cama d) of
                            None \<Rightarrow> camas st
                          | Some cam \<Rightarrow> (camas st)(r_id_cama d \<mapsto>
                              cam\<lparr>ocupada := True, cama_id_paciente := Some (r_id_paciente d)\<rparr>))\<rparr>
           in case insertar_visita hoy visita st1 of
                Inl e \<Rightarrow> ((500, False), st)
              | Inr (v, st2) \<Rightarrow> ((201, True), st2)))"


section \<open>Properties of the identity binder\<close>

lemma generate_node_id_loop_found:
  "generate_node_id_loop env s k a = Inr c \<longleftrightarrow>
     (s + int a \<le> c \<and> c < s + int a + int k \<and> id_available env c \<and>
      (\<forall>d. s + int a \<le> d \<and> d < c \<longrightarrow> \<not> id_available env d))"
proof (induction k arbitrary: a)
  case 0
  show ?case by auto
next
  case (Suc k)
  show ?case
  proof (cases "id_available env (s + int a)")
    case True
    then show ?thesis
      by (auto simp: Let_def)
  next
    case False
    have step: "s + int a \<le> d \<longleftrightarrow> d = s + int a \<or> s + int (Suc a) \<le> d" for d
      by auto
    have "generate_node_id_loop env s (Suc k) a = generate_node_id_loop env s k (Suc a)"
      using False by (simp add: Let_def)
    also have "\<dots> = Inr c \<longleftrightarrow>
       (s + int (Suc a) \<le> c \<and> c < s + int (Suc a) + int k \<and> id_available env c \<and>
        (\<forall>d. s + int (Suc a) \<le> d \<and> d < c \<longrightarrow> \<not> id_available env d))"
      by (rule Suc.IH)
    also have "\<dots> \<longleftrightarrow>
       (s + int a \<le> c \<and> c < s + int a + int (Suc k) \<and> id_available env c \<and>
        (\<forall>d. s + int a \<le> d \<and> d < c \<longrightarrow> \<not> id_available env d))"
      using False by (auto simp: step)
    finally show ?thesis .
  qed
qed

lemma generate_node_id_loop_none:
  "generate_node_id_loop env s k a = Inl e \<longleftrightarrow>
     (e = RuntimeError \<and>
      (\<forall>d. s + int a \<le> d \<and> d < s + int a + int k \<longrightarrow> \<not> id_available env d))"
proof (induction k arbitrary: a)
  case 0
  show ?case by auto
next
  case (Suc k)
  have step: "s + int a \<le> d \<longleftrightarrow> d = s + int a \<or> s + int (Suc a) \<le> d" for d
    by auto
  show ?case
    by (auto simp: Let_def Suc.IH step)
qed

text \<open>
  Claim C9. With the default bound of 100 attempts and any start id \<open>s\<close>,
  \<open>generate_node_id\<close> returns \<open>c\<close> exactly when \<open>c\<close> is the smallest candidate of
  \<open>s, \<dots>, s + 99\<close> whose derived ports \<open>5555 + c mod 1000\<close> and \<open>6000 + c mod 1000\<close> both
  pass the availability check, and it raises (the only error being \<open>RuntimeError\<close>)
  exactly when none of these 100 candidates passes.
\<close>

theorem generate_node_id_smallest_free:
  "(generate_node_id env s 100 = Inr c \<longleftrightarrow>
      (s \<le> c \<and> c \<le> s + 99 \<and>
       is_port_available env (5555 + c mod 1000) \<and> is_port_available env (6000 + c mod 1000) \<and>
       (\<forall>d. s \<le> d \<and> d < c \<longrightarrow>
          \<not> (is_port_available env (5555 + d mod 1000) \<and>
             is_port_available env (6000 + d mod 1000))))) \<and>
   (generate_node_id env s 100 = Inl e \<longleftrightarrow>
      (e = RuntimeError \<and>
       (\<forall>d. s \<le> d \<and> d \<le> s + 99 \<longrightarrow>
          \<not> (is_port_available env (5555 + d mod 1000) \<and>
             is_port_available env (6000 + d mod 1000)))))"
proof -
  have "(c < s + 100) = (c \<le> s + 99)" and "\<And>d. (d < s + 100) = (d \<le> s + 99)"
    by auto
  then show ?thesis
    unfolding generate_node_id_def generate_node_id_loop_found generate_node_id_loop_none
    by (simp add: id_available_def tcp_port_of_def udp_port_of_def)
qed

text \<open>
  A node with id 1 already holds TCP port 5556 and UDP port 6001; every other port is
  free. The search from 1 returns 2. When no TCP bind succeeds at all, the search raises.
\<close>

theorem generate_node_id_smallest_free_witness:
  "generate_node_id
     \<lparr>tcp_bind_ok = (\<lambda>p. p \<noteq> 5556), udp_bind_ok = (\<lambda>p. p \<noteq> 6001)\<rparr> 1 100 = Inr 2 \<and>
   generate_node_id
     \<lparr>tcp_bind_ok = (\<lambda>p. False), udp_bind_ok = (\<lambda>p. True)\<rparr> 1 100 = Inl RuntimeError"
proof -
  have only: "\<forall>d::int. 1 \<le> d \<and> d < 2 \<longrightarrow> d = 1"
    by auto
  have found: "generate_node_id
     \<lparr>tcp_bind_ok = (\<lambda>p. p \<noteq> 5556), udp_bind_ok = (\<lambda>p. p \<noteq> 6001)\<rparr> 1 100 = Inr 2"
    using only
      generate_node_id_smallest_free
        [of "\<lparr>tcp_bind_ok = (\<lambda>p. p \<noteq> 5556), udp_bind_ok = (\<lambda>p. p \<noteq> 6001)\<rparr>" 1 2]
    by (auto simp: is_port_available_def)
  have none: "generate_node_id
     \<lparr>tcp_bind_ok = (\<lambda>p. False), udp_bind_ok = (\<lambda>p. True)\<rparr> 1 100 = Inl RuntimeError"
    using generate_node_id_smallest_free
        [of "\<lparr>tcp_bind_ok = (\<lambda>p. False), udp_bind_ok = (\<lambda>p. True)\<rparr>" 1 0 RuntimeError]
    by (simp add: is_port_available_def)
  from found none show ?thesis ..
qed

section \<open>Properties of the discovery agent\<close>

lemma remove_node_nodes:
  "discovered_nodes (remove_node s nid) = AList.delete nid (discovered_nodes s)"
  by (auto simp: remove_node_def known_node_def Let_def map_of_eq_None_iff)

lemma remove_node_fixed [simp]:
  "node_id (remove_node s nid) = node_id s"
  "node_timeout (remove_node s nid) = node_timeout s"
  "on_node_lost (remove_node s nid) = on_node_lost s"
  by (simp_all add: remove_node_def Let_def)

lemma fold_remove_node_nodes:
  "discovered_nodes (fold (\<lambda>nid s. remove_node s nid) ns s) =
     filter (\<lambda>p. fst p \<notin> set ns) (discovered_nodes s)"
proof (induction ns arbitrary: s)
  case Nil
  show ?case by simp
next
  case (Cons n ns)
  show ?case
    by (auto simp: Cons.IH remove_node_nodes AList.delete_eq intro!: filter_cong)
qed

lemma fold_remove_node_fixed [simp]:
  "node_id (fold (\<lambda>nid s. remove_node s nid) ns s) = node_id s"
  "on_node_lost (fold (\<lambda>nid s. remove_node s nid) ns s) = on_node_lost s"
  by (induction ns arbitrary: s) simp_all

lemma known_node_remove_node:
  "known_node (remove_node s m) nid \<longleftrightarrow> known_node s nid \<and> nid \<noteq> m"
  by (auto simp: known_node_def remove_node_nodes AList.delete_eq map_of_eq_None_iff)

lemma fold_remove_node_started_list:
  "distinct ns \<Longrightarrow> \<forall>n \<in> set ns. known_node s n \<Longrightarrow>
   started (fold (\<lambda>nid s. remove_node s nid) ns s) =
     started s @ (if on_node_lost s then map NodeLost ns else [])"
proof (induction ns arbitrary: s)
  case Nil
  show ?case by simp
next
  case (Cons n ns)
  have rest: "\<forall>m \<in> set ns. known_node (remove_node s n) m"
    using Cons.prems by (auto simp: known_node_remove_node)
  have "distinct ns"
    using Cons.prems by simp
  from Cons.IH [OF this rest] Cons.prems show ?case
    by (simp add: remove_node_def Let_def)
qed

lemma nodes_to_remove_known:
  "n \<in> set (nodes_to_remove s t) \<Longrightarrow> known_node s n"
  by (auto simp: nodes_to_remove_def known_node_def map_of_eq_None_iff intro: rev_image_eqI)

lemma nodes_to_remove_distinct:
  "distinct (map fst (discovered_nodes s)) \<Longrightarrow> distinct (nodes_to_remove s t)"
  unfolding nodes_to_remove_def by (rule distinct_map_filter)

lemma nodes_to_remove_iff:
  assumes "distinct (map fst (discovered_nodes s))"
    and "map_of (discovered_nodes s) nid = Some info"
  shows "nid \<in> set (nodes_to_remove s t) \<longleftrightarrow> t - last_seen info > node_timeout s"
proof
  assume "nid \<in> set (nodes_to_remove s t)"
  then obtain info' where in_tab: "(nid, info') \<in> set (discovered_nodes s)"
    and old: "t - last_seen info' > node_timeout s"
    by (auto simp: nodes_to_remove_def)
  from assms(1) in_tab have "map_of (discovered_nodes s) nid = Some info'"
    by (rule map_of_is_SomeI)
  with assms(2) old show "t - last_seen info > node_timeout s"
    by simp
next
  assume old: "t - last_seen info > node_timeout s"
  from assms(2) have "(nid, info) \<in> set (discovered_nodes s)"
    by (rule map_of_SomeD)
  with old show "nid \<in> set (nodes_to_remove s t)"
    by (force simp: nodes_to_remove_def)
qed

lemma map_of_filter_keys:
  "map_of (filter (\<lambda>p. fst p \<notin> A) xs) k = (if k \<in> A then None else map_of xs k)"
  by (induction xs) auto

text \<open>
  Claim C7, as the code has it. The cleanup pass compares with a strict \<open>></\<close>: a peer is
  evicted (and \<open>on_node_lost\<close> started for it, when a callback is set) exactly when the time
  since its \<open>last_seen\<close> is greater than \<open>node_timeout\<close>; a peer whose age is at most
  \<open>node_timeout\<close>, so also one whose age is exactly \<open>node_timeout\<close>, keeps its entry
  unchanged. The callbacks started by the pass are those of the evicted peers, in table
  order.
\<close>

theorem cleanup_evicts_strictly_older:
  assumes "distinct (map fst (discovered_nodes s))"
    and "map_of (discovered_nodes s) nid = Some info"
  shows "(t - last_seen info > node_timeout s \<longrightarrow>
            map_of (discovered_nodes (cleanup_pass s t)) nid = None \<and>
            nid \<in> set (nodes_to_remove s t)) \<and>
         (t - last_seen info \<le> node_timeout s \<longrightarrow>
            map_of (discovered_nodes (cleanup_pass s t)) nid = Some info \<and>
            nid \<notin> set (nodes_to_remove s t)) \<and>
         started (cleanup_pass s t) =
           started s @ (if on_node_lost s then map NodeLost (nodes_to_remove s t) else [])"
proof -
  have tab: "map_of (discovered_nodes (cleanup_pass s t)) nid =
      (if nid \<in> set (nodes_to_remove s t) then None else Some info)"
    using assms(2) by (simp add: cleanup_pass_def fold_remove_node_nodes map_of_filter_keys)
  have cb: "started (cleanup_pass s t) =
      started s @ (if on_node_lost s then map NodeLost (nodes_to_remove s t) else [])"
    unfolding cleanup_pass_def
    by (rule fold_remove_node_started_list)
      (auto simp: nodes_to_remove_distinct assms(1) nodes_to_remove_known)
  show ?thesis
    using tab cb nodes_to_remove_iff [OF assms, of t] by auto
qed

text \<open>
  Peer 2 was last seen at time 0 and \<open>node_timeout\<close> is 15. The pass at time 20 evicts it
  and starts \<open>on_node_lost\<close>; the pass at time 10 keeps it.
\<close>

theorem cleanup_evicts_strictly_older_witness:
  "map_of (discovered_nodes (cleanup_pass
      \<lparr>node_id = 1, node_timeout = 15,
       discovered_nodes =
         [(2, \<lparr>host = ''10.0.0.2'', tcp_port = 5557, udp_port = 6002, last_seen = 0\<rparr>)],
       on_node_discovered = False, on_node_lost = True, on_id_collision = False,
       started = []\<rparr> 20)) 2 = None \<and>
   started (cleanup_pass
      \<lparr>node_id = 1, node_timeout = 15,
       discovered_nodes =
         [(2, \<lparr>host = ''10.0.0.2'', tcp_port = 5557, udp_port = 6002, last_seen = 0\<rparr>)],
       on_node_discovered = False, on_node_lost = True, on_id_collision = False,
       started = []\<rparr> 20) = [NodeLost 2] \<and>
   map_of (discovered_nodes (cleanup_pass
      \<lparr>node_id = 1, node_timeout = 15,
       discovered_nodes =
         [(2, \<lparr>host = ''10.0.0.2'', tcp_port = 5557, udp_port = 6002, last_seen = 0\<rparr>)],
       on_node_discovered = False, on_node_lost = True, on_id_collision = False,
       started = []\<rparr> 10)) 2 =
     Some \<lparr>host = ''10.0.0.2'', tcp_port = 5557, udp_port = 6002, last_seen = 0\<rparr>"
proof -
  have tab: "distinct (map fst (discovered_nodes
      \<lparr>node_id = 1, node_timeout = 15,
       discovered_nodes =
         [(2, \<lparr>host = ''10.0.0.2'', tcp_port = 5557, udp_port = 6002, last_seen = 0\<rparr>)],
       on_node_discovered = False, on_node_lost = True, on_id_collision = False,
       started = []\<rparr>))"
    by simp
  have peer: "map_of (discovered_nodes
      \<lparr>node_id = 1, node_timeout = 15,
       discovered_nodes =
         [(2, \<lparr>host = ''10.0.0.2'', tcp_port = 5557, udp_port = 6002, last_seen = 0\<rparr>)],
       on_node_discovered = False, on_node_lost = True, on_id_collision = False,
       started = []\<rparr>) 2 =
     Some \<lparr>host = ''10.0.0.2'', tcp_port = 5557, udp_port = 6002, last_seen = 0\<rparr>"
    by simp
  have old: "2 \<in> set (nodes_to_remove
      \<lparr>node_id = 1, node_timeout = 15,
       discovered_nodes =
         [(2, \<lparr>host = ''10.0.0.2'', tcp_port = 5557, udp_port = 6002, last_seen = 0\<rparr>)],
       on_node_discovered = False, on_node_lost = True, on_id_collision = False,
       started = []\<rparr> 20)"
    by (simp add: nodes_to_remove_def)
  from old cleanup_evicts_strictly_older [OF tab peer, of 20]
    cleanup_evicts_strictly_older [OF tab peer, of 10]
  show ?thesis
    by (simp add: nodes_to_remove_def)
qed

text \<open>
  The claim as written fails at the boundary: with \<open>node_timeout = 15\<close> and peer 2 last seen
  at time 0, the pass at time 15 (age exactly \<open>node_timeout\<close>) keeps peer 2 and starts no
  callback.
\<close>

theorem cleanup_at_exact_timeout_counterexample:
  "map_of (discovered_nodes (cleanup_pass
      \<lparr>node_id = 1, node_timeout = 15,
       discovered_nodes =
         [(2, \<lparr>host = ''10.0.0.2'', tcp_port = 5557, udp_port = 6002, last_seen = 0\<rparr>)],
       on_node_discovered = False, on_node_lost = True, on_id_collision = False,
       started = []\<rparr> 15)) 2 =
     Some \<lparr>host = ''10.0.0.2'', tcp_port = 5557, udp_port = 6002, last_seen = 0\<rparr> \<and>
   started (cleanup_pass
      \<lparr>node_id = 1, node_timeout = 15,
       discovered_nodes =
         [(2, \<lparr>host = ''10.0.0.2'', tcp_port = 5557, udp_port = 6002, last_seen = 0\<rparr>)],
       on_node_discovered = False, on_node_lost = True, on_id_collision = False,
       started = []\<rparr> 15) = []"
  by (simp add: cleanup_pass_def nodes_to_remove_def)

lemma handle_message_node_id [simp]:
  "node_id (handle_message s data ip my now) = node_id s"
  by (simp add: handle_message_def handle_announce_def handle_leave_def Let_def
      split: option.splits sum.splits)

lemma handle_announce_nodes:
  "handle_announce s m ip now = Inr s' \<Longrightarrow>
   \<exists>n v. msg_node_id m = Some n \<and> discovered_nodes s' = AList.update n v (discovered_nodes s)"
  by (auto simp: handle_announce_def Let_def split: option.splits if_splits)

lemma handle_leave_nodes:
  "handle_leave s m = Inr s' \<Longrightarrow>
   \<exists>n. msg_node_id m = Some n \<and> discovered_nodes s' = AList.delete n (discovered_nodes s)"
  by (auto simp: handle_leave_def remove_node_nodes split: option.splits)

lemma handle_message_keys:
  "fst ` set (discovered_nodes (handle_message s data ip my now))
     \<subseteq> fst ` set (discovered_nodes s) \<union> {n. n \<noteq> node_id s}"
proof (cases data)
  case None
  then show ?thesis by (simp add: handle_message_def)
next
  case (Some m)
  show ?thesis
  proof (cases "msg_node_id m = Some (node_id s)")
    case True
    then show ?thesis
      using Some by (simp add: handle_message_def split: option.splits)
  next
    case own: False
    show ?thesis
    proof (cases "msg_type m = Some ''ANNOUNCE''")
      case True
      show ?thesis
      proof (cases "handle_announce s m ip now")
        case (Inl e)
        then show ?thesis using Some own True by (simp add: handle_message_def)
      next
        case (Inr s')
        from handle_announce_nodes [OF Inr] obtain n v where
          n: "msg_node_id m = Some n" and
          tab: "discovered_nodes s' = AList.update n v (discovered_nodes s)"
          by blast
        have "handle_message s data ip my now = s'"
          using Some own True Inr by (simp add: handle_message_def)
        moreover have "n \<noteq> node_id s" using own n by simp
        ultimately show ?thesis
          by (simp add: tab dom_update)
      qed
    next
      case ann: False
      show ?thesis
      proof (cases "msg_type m = Some ''LEAVE''")
        case True
        show ?thesis
        proof (cases "handle_leave s m")
          case (Inl e)
          then show ?thesis using Some own ann True by (simp add: handle_message_def)
        next
          case (Inr s')
          from handle_leave_nodes [OF Inr] obtain n where
            tab: "discovered_nodes s' = AList.delete n (discovered_nodes s)"
            by blast
          have "handle_message s data ip my now = s'"
            using Some own ann True Inr by (simp add: handle_message_def)
          then show ?thesis
            by (auto simp: tab AList.delete_eq)
        qed
      next
        case False
        then show ?thesis using Some own ann by (simp add: handle_message_def)
      qed
    qed
  qed
qed

lemma cleanup_pass_node_id [simp]: "node_id (cleanup_pass s t) = node_id s"
  by (simp add: cleanup_pass_def)

lemma cleanup_pass_keys:
  "fst ` set (discovered_nodes (cleanup_pass s t)) \<subseteq> fst ` set (discovered_nodes s)"
  by (auto simp: cleanup_pass_def fold_remove_node_nodes)

lemma reachable_own_id_absent:
  "reachable s \<Longrightarrow> node_id s \<notin> fst ` set (discovered_nodes s)"
proof (induction rule: reachable.induct)
  case (reach_init nid timeout)
  show ?case by (simp add: init_discovery_def)
next
  case (reach_callbacks s d l c)
  then show ?case by (simp add: set_callbacks_def)
next
  case (reach_message s data sender_ip my_ip now)
  then show ?case
    using handle_message_keys [of s data sender_ip my_ip now] by auto
next
  case (reach_cleanup s current_time)
  then show ?case
    using cleanup_pass_keys [of s current_time] by auto
qed

lemma own_id_message_dropped:
  "msg_node_id m = Some (node_id s) \<Longrightarrow>
   discovered_nodes (handle_message s (Some m) ip my now) = discovered_nodes s"
  unfolding handle_message_def by (cases my) simp_all

lemma get_discovered_nodes_keys:
  "fst ` set (get_discovered_nodes s) = fst ` set (discovered_nodes s)"
  by (simp add: get_discovered_nodes_def image_image case_prod_unfold)

text \<open>
  Claim C10. In every state a discovery object reaches from \<open>__init__\<close> through
  \<open>set_callbacks\<close>, \<open>_handle_message\<close> and cleanup passes, the peer table has no entry under
  the object's own \<open>node_id\<close>, so \<open>get_discovered_nodes\<close> does not return it; and a message
  whose \<open>node_id\<close> is the own id leaves the peer table as it was, whatever its type and
  sender address (collision callback started or not).
\<close>

theorem own_id_never_discovered:
  assumes "reachable s"
  shows "node_id s \<notin> fst ` set (discovered_nodes s) \<and>
         node_id s \<notin> fst ` set (get_discovered_nodes s) \<and>
         (\<forall>m ip my now. msg_node_id m = Some (node_id s) \<longrightarrow>
            discovered_nodes (handle_message s (Some m) ip my now) = discovered_nodes s)"
  using reachable_own_id_absent [OF assms]
  by (simp add: get_discovered_nodes_keys own_id_message_dropped)

text \<open>
  Node 1 with a collision callback receives an \<open>ANNOUNCE\<close> carrying its own id from a
  foreign address, then an \<open>ANNOUNCE\<close> of node 2: only node 2 is in the table.
\<close>

theorem own_id_never_discovered_witness:
  "get_discovered_nodes
     (handle_message
        (handle_message (set_callbacks (init_discovery 1 15) True True True)
           (Some \<lparr>msg_type = Some ''ANNOUNCE'', msg_node_id = Some 1,
                  msg_tcp_port = Some 5556, msg_udp_port = Some 6001\<rparr>)
           ''10.0.0.9'' (Some ''10.0.0.1'') 3)
        (Some \<lparr>msg_type = Some ''ANNOUNCE'', msg_node_id = Some 2,
               msg_tcp_port = Some 5557, msg_udp_port = Some 6002\<rparr>)
        ''10.0.0.2'' (Some ''10.0.0.1'') 4)
     = [(2, (''10.0.0.2'', 5557, 6002))] \<and>
   1 \<notin> fst ` set (get_discovered_nodes
     (handle_message
        (handle_message (set_callbacks (init_discovery 1 15) True True True)
           (Some \<lparr>msg_type = Some ''ANNOUNCE'', msg_node_id = Some 1,
                  msg_tcp_port = Some 5556, msg_udp_port = Some 6001\<rparr>)
           ''10.0.0.9'' (Some ''10.0.0.1'') 3)
        (Some \<lparr>msg_type = Some ''ANNOUNCE'', msg_node_id = Some 2,
               msg_tcp_port = Some 5557, msg_udp_port = Some 6002\<rparr>)
        ''10.0.0.2'' (Some ''10.0.0.1'') 4))"
proof -
  have r: "reachable
     (handle_message
        (handle_message (set_callbacks (init_discovery 1 15) True True True)
           (Some \<lparr>msg_type = Some ''ANNOUNCE'', msg_node_id = Some 1,
                  msg_tcp_port = Some 5556, msg_udp_port = Some 6001\<rparr>)
           ''10.0.0.9'' (Some ''10.0.0.1'') 3)
        (Some \<lparr>msg_type = Some ''ANNOUNCE'', msg_node_id = Some 2,
               msg_tcp_port = Some 5557, msg_udp_port = Some 6002\<rparr>)
        ''10.0.0.2'' (Some ''10.0.0.1'') 4)"
    by (intro reachable.intros)
  have id: "node_id
     (handle_message
        (handle_message (set_callbacks (init_discovery 1 15) True True True)
           (Some \<lparr>msg_type = Some ''ANNOUNCE'', msg_node_id = Some 1,
                  msg_tcp_port = Some 5556, msg_udp_port = Some 6001\<rparr>)
           ''10.0.0.9'' (Some ''10.0.0.1'') 3)
        (Some \<lparr>msg_type = Some ''ANNOUNCE'', msg_node_id = Some 2,
               msg_tcp_port = Some 5557, msg_udp_port = Some 6002\<rparr>)
        ''10.0.0.2'' (Some ''10.0.0.1'') 4) = 1"
    by (simp add: set_callbacks_def init_discovery_def)
  have tab: "get_discovered_nodes
     (handle_message
        (handle_message (set_callbacks (init_discovery 1 15) True True True)
           (Some \<lparr>msg_type = Some ''ANNOUNCE'', msg_node_id = Some 1,
                  msg_tcp_port = Some 5556, msg_udp_port = Some 6001\<rparr>)
           ''10.0.0.9'' (Some ''10.0.0.1'') 3)
        (Some \<lparr>msg_type = Some ''ANNOUNCE'', msg_node_id = Some 2,
               msg_tcp_port = Some 5557, msg_udp_port = Some 6002\<rparr>)
        ''10.0.0.2'' (Some ''10.0.0.1'') 4) = [(2, (''10.0.0.2'', 5557, 6002))]"
    by (simp add: get_discovered_nodes_def handle_message_def handle_announce_def
        set_callbacks_def init_discovery_def known_node_def Let_def)
  from own_id_never_discovered [OF r] id tab show ?thesis
    by simp
qed

section \<open>Properties of the socket node\<close>

lemma pedir_aprobaciones_Some:
  "pedir_aprobaciones net peers c = Some n \<longleftrightarrow>
     ((\<forall>p \<in> set peers. net p = Respuesta ''BLOQUEO_APROBADO'') \<and> n = c + length peers)"
proof (induction peers arbitrary: c)
  case Nil
  show ?case by auto
next
  case (Cons p peers)
  show ?case
    by (cases "net p") (auto simp: Cons.IH)
qed

text \<open>
  The third version of \<open>solicitar_bloqueo_distribuido\<close> (atomic request): the lock is
  obtained exactly when the resource is free in the local store and every peer of
  \<open>NODOS_REMOTOS\<close> answers \<open>BLOQUEO_APROBADO\<close>; one other answer or one peer that does not
  answer gives \<open>False\<close> and leaves the node as it was.
\<close>

lemma solicitar_bloqueo_atomico_unanime:
  "fst (solicitar_bloqueo_distribuido net peers now s tipo rid) \<longleftrightarrow>
     (verificar_recurso_local (bd s) tipo rid \<and>
      (\<forall>p \<in> set peers. net p = Respuesta ''BLOQUEO_APROBADO''))"
proof (cases "pedir_aprobaciones net peers 0")
  case None
  then have no: "\<not> (\<forall>p \<in> set peers. net p = Respuesta ''BLOQUEO_APROBADO'')"
    using pedir_aprobaciones_Some [of net peers 0] by auto
  then have "peers \<noteq> []" by auto
  with no None show ?thesis
    by (simp add: solicitar_bloqueo_distribuido_def)
next
  case (Some n)
  then have "(\<forall>p \<in> set peers. net p = Respuesta ''BLOQUEO_APROBADO'') \<and> n = length peers"
    using pedir_aprobaciones_Some [of net peers 0 n] by simp
  then show ?thesis
    using Some by (simp add: solicitar_bloqueo_distribuido_def)
qed

lemma solicitar_bloqueo_atomico_rechazo:
  "p \<in> set peers \<Longrightarrow> net p \<noteq> Respuesta ''BLOQUEO_APROBADO'' \<Longrightarrow>
   solicitar_bloqueo_distribuido net peers now s tipo rid = (False, s)"
proof -
  assume p: "p \<in> set peers" "net p \<noteq> Respuesta ''BLOQUEO_APROBADO''"
  then have "pedir_aprobaciones net peers 0 = None"
    using pedir_aprobaciones_Some [of net peers 0] by (cases "pedir_aprobaciones net peers 0") auto
  moreover have "peers \<noteq> []" using p by auto
  ultimately show ?thesis
    by (simp add: solicitar_bloqueo_distribuido_def)
qed

lemma str_int_1: "str_int 1 = ''1''"
  by (simp add: str_int_def digits_of.simps digit_char_def)

text \<open>
  Claim C2 says that the lock is obtained only if every contacted peer grants it. The second
  version of \<open>solicitar_bloqueo_distribuido\<close> decides with
  \<open>confirmaciones >= len(NODOS_REMOTOS) // 2\<close>: with one remote peer, which answers
  \<open>BLOQUEO_RECHAZADO\<close>, the threshold is 0, the function returns \<open>True\<close> and keeps the local
  lock entry for doctor 1.
\<close>

theorem solicitar_bloqueo_v2_un_rechazo:
  "solicitar_bloqueo_distribuido_v2
     (\<lambda>peer. Respuesta ''BLOQUEO_RECHAZADO'') [(''192.168.95.131'', 5555)] 0
     \<lparr>bloqueos_locales = Map.empty,
      bd = \<lparr>PACIENTES = [], DOCTORES = [1 \<mapsto> 1], CAMAS_ATENCION = Map.empty,
            VISITAS_EMERGENCIA = [], CONSECUTIVOS_VISITAS = Map.empty\<rparr>\<rparr>
     ''DOCTOR'' 1 =
   (True,
    \<lparr>bloqueos_locales = [''DOCTOR_1'' \<mapsto> 0],
      bd = \<lparr>PACIENTES = [], DOCTORES = [1 \<mapsto> 1], CAMAS_ATENCION = Map.empty,
            VISITAS_EMERGENCIA = [], CONSECUTIVOS_VISITAS = Map.empty\<rparr>\<rparr>)"
  by (simp add: solicitar_bloqueo_distribuido_v2_def verificar_recurso_local_def clave_de_def
      str_int_1 Let_def)

lemma contar_consenso_ok_filter:
  "contar_consenso_ok net peers c =
     c + length (filter (\<lambda>p. net p = Respuesta ''CONSENSO_OK'') peers)"
proof (induction peers arbitrary: c)
  case Nil
  show ?case by simp
next
  case (Cons p peers)
  show ?case
    by (cases "net p") (simp_all add: Cons.IH)
qed

text \<open>
  Claim C4. With no remote peer the command is executed locally at once. With \<open>N > 0\<close>
  peers the command is executed locally, and the result is the truth value of the local
  execution, exactly when at least \<open>N div 2 + 1\<close> peers answer \<open>CONSENSO_OK\<close>; with fewer
  answers (so also with exactly \<open>N div 2\<close>) the result is \<open>False\<close> and the store is
  untouched.
\<close>

theorem consenso_requiere_mayoria:
  "(NODOS_REMOTOS = [] \<longrightarrow>
      propagar_transaccion_con_consenso net NODOS_REMOTOS now comando db =
        ejecutar_transaccion_local now comando db) \<and>
   (NODOS_REMOTOS \<noteq> [] \<and>
    length (filter (\<lambda>p. net p = Respuesta ''CONSENSO_OK'') NODOS_REMOTOS)
      \<ge> length NODOS_REMOTOS div 2 + 1 \<longrightarrow>
      propagar_transaccion_con_consenso net NODOS_REMOTOS now comando db =
        (Booleano (verdadero (fst (ejecutar_transaccion_local now comando db))),
         snd (ejecutar_transaccion_local now comando db))) \<and>
   (NODOS_REMOTOS \<noteq> [] \<and>
    length (filter (\<lambda>p. net p = Respuesta ''CONSENSO_OK'') NODOS_REMOTOS)
      < length NODOS_REMOTOS div 2 + 1 \<longrightarrow>
      propagar_transaccion_con_consenso net NODOS_REMOTOS now comando db = (Booleano False, db))"
  by (simp add: propagar_transaccion_con_consenso_def contar_consenso_ok_filter Let_def
      split: prod.splits)

text \<open>
  Three peers of which two answer \<open>CONSENSO_OK\<close>: the increment is executed and the
  counter of the node becomes 1. Two peers of which one answers: nothing is executed. No
  peer: the increment is executed and its value 1 is returned.
\<close>

theorem consenso_requiere_mayoria_witness:
  "propagar_transaccion_con_consenso
     (\<lambda>p. if fst p = ''10.0.0.3'' then SinRespuesta else Respuesta ''CONSENSO_OK'')
     [(''10.0.0.1'', 5555), (''10.0.0.2'', 5555), (''10.0.0.3'', 5555)] 0 INCREMENTAR_CONSECUTIVO
     \<lparr>PACIENTES = [], DOCTORES = Map.empty, CAMAS_ATENCION = Map.empty,
      VISITAS_EMERGENCIA = [], CONSECUTIVOS_VISITAS = Map.empty\<rparr> =
   (Booleano True,
     \<lparr>PACIENTES = [], DOCTORES = Map.empty, CAMAS_ATENCION = Map.empty,
      VISITAS_EMERGENCIA = [], CONSECUTIVOS_VISITAS = [5555 \<mapsto> 1]\<rparr>) \<and>
   propagar_transaccion_con_consenso
     (\<lambda>p. if fst p = ''10.0.0.3'' then SinRespuesta else Respuesta ''CONSENSO_OK'')
     [(''10.0.0.1'', 5555), (''10.0.0.3'', 5555)] 0 INCREMENTAR_CONSECUTIVO
     \<lparr>PACIENTES = [], DOCTORES = Map.empty, CAMAS_ATENCION = Map.empty,
      VISITAS_EMERGENCIA = [], CONSECUTIVOS_VISITAS = Map.empty\<rparr> =
   (Booleano False,
     \<lparr>PACIENTES = [], DOCTORES = Map.empty, CAMAS_ATENCION = Map.empty,
      VISITAS_EMERGENCIA = [], CONSECUTIVOS_VISITAS = Map.empty\<rparr>) \<and>
   propagar_transaccion_con_consenso
     (\<lambda>p. SinRespuesta) [] 0 INCREMENTAR_CONSECUTIVO
     \<lparr>PACIENTES = [], DOCTORES = Map.empty, CAMAS_ATENCION = Map.empty,
      VISITAS_EMERGENCIA = [], CONSECUTIVOS_VISITAS = Map.empty\<rparr> =
   (Entero 1,
     \<lparr>PACIENTES = [], DOCTORES = Map.empty, CAMAS_ATENCION = Map.empty,
      VISITAS_EMERGENCIA = [], CONSECUTIVOS_VISITAS = [5555 \<mapsto> 1]\<rparr>)"
  using
    consenso_requiere_mayoria
      [of "[]" "\<lambda>p. SinRespuesta" 0 INCREMENTAR_CONSECUTIVO
          "\<lparr>PACIENTES = [], DOCTORES = Map.empty, CAMAS_ATENCION = Map.empty,
            VISITAS_EMERGENCIA = [], CONSECUTIVOS_VISITAS = Map.empty\<rparr>"]
    consenso_requiere_mayoria
      [of "[(''10.0.0.1'', 5555), (''10.0.0.2'', 5555), (''10.0.0.3'', 5555)]"
          "\<lambda>p. if fst p = ''10.0.0.3'' then SinRespuesta else Respuesta ''CONSENSO_OK''"
          0 INCREMENTAR_CONSECUTIVO
          "\<lparr>PACIENTES = [], DOCTORES = Map.empty, CAMAS_ATENCION = Map.empty,
            VISITAS_EMERGENCIA = [], CONSECUTIVOS_VISITAS = Map.empty\<rparr>"]
    consenso_requiere_mayoria
      [of "[(''10.0.0.1'', 5555), (''10.0.0.3'', 5555)]"
          "\<lambda>p. if fst p = ''10.0.0.3'' then SinRespuesta else Respuesta ''CONSENSO_OK''"
          0 INCREMENTAR_CONSECUTIVO
          "\<lparr>PACIENTES = [], DOCTORES = Map.empty, CAMAS_ATENCION = Map.empty,
            VISITAS_EMERGENCIA = [], CONSECUTIVOS_VISITAS = Map.empty\<rparr>"]
  by (simp add: ejecutar_transaccion_local_def SERVER_PORT_def)

lemma handle_client_keeps:
  assumes "bloqueos_locales s k = Some t" and "\<not> libera_clave k (Recibe now m)"
  shows "bloqueos_locales (snd (handle_client now m s)) k = Some t"
proof (cases m)
  case (SOLICITAR_BLOQUEO_ATOMICO tipo rid)
  with assms show ?thesis
    by (auto simp: handle_client_def Let_def)
next
  case (LIBERAR_BLOQUEO tipo rid)
  with assms show ?thesis
    by (auto simp: handle_client_def Let_def)
next
  case (TRANSACCION c)
  with assms show ?thesis
    by (cases c) (simp_all add: handle_client_def split: prod.splits)
qed (use assms in \<open>simp_all add: handle_client_def\<close>)

lemma paso_stays:
  assumes "bloqueos_locales s k = Some t" and "\<not> libera_clave k e"
  shows "bloqueos_locales (paso e s) k = Some t \<or>
         (\<exists>now net ns tipo rid. e = Solicita now net ns tipo rid \<and> clave_de tipo rid = k \<and>
            bloqueos_locales (paso e s) k = Some now)"
proof (cases e)
  case (Recibe now m)
  with assms show ?thesis
    by (simp add: handle_client_keeps)
next
  case (Solicita now net ns tipo rid)
  with assms(1) show ?thesis
    by (auto simp: solicitar_bloqueo_distribuido_def split: option.splits)
next
  case (Libera tipo rid)
  with assms show ?thesis
    by (auto simp: liberar_bloqueo_distribuido_def Let_def)
qed

lemma ejecutar_eventos_stays:
  assumes "bloqueos_locales s k = Some t"
    and "\<forall>e \<in> set eventos. \<not> libera_clave k e"
  shows "bloqueos_locales (ejecutar_eventos eventos s) k = Some t \<or>
         (\<exists>now net ns tipo rid. Solicita now net ns tipo rid \<in> set eventos \<and>
            clave_de tipo rid = k \<and>
            bloqueos_locales (ejecutar_eventos eventos s) k = Some now)"
  using assms unfolding ejecutar_eventos_def
proof (induction eventos arbitrary: s t)
  case Nil
  then show ?case by simp
next
  case (Cons e eventos)
  from Cons.prems have nr: "\<not> libera_clave k e" and rest: "\<forall>e \<in> set eventos. \<not> libera_clave k e"
    by simp_all
  from paso_stays [OF Cons.prems(1) nr] obtain t' where
    t': "bloqueos_locales (paso e s) k = Some t'" and
    src: "t' = t \<or> (\<exists>now net ns tipo rid. e = Solicita now net ns tipo rid \<and>
            clave_de tipo rid = k \<and> t' = now)"
    by auto
  from Cons.IH [OF t' rest] src show ?case
    by (simp only: fold_simps list.set) blast
qed

text \<open>
  Claim C8, as the code has it. No operation of the node removes an entry of
  \<open>bloqueos_locales\<close> by age. The entry recorded when a peer's request is approved stays in
  the table through every sequence of later events that holds no release of that key (a
  \<open>LIBERAR_BLOQUEO\<close> message or a local release), whatever the times of these events. Its
  time is the time of approval, or the time of a lock request of the node itself for that
  key among these events (such a request overwrites the entry without looking at it); with
  no such request it is the time of approval.
\<close>

theorem bloqueo_provisional_sin_caducidad:
  assumes "handle_client t0 (SOLICITAR_BLOQUEO_ATOMICO tipo rid) s = (Some ''BLOQUEO_APROBADO'', s1)"
    and "\<forall>e \<in> set eventos. \<not> libera_clave (clave_de tipo rid) e"
  shows "clave_de tipo rid \<in> dom (bloqueos_locales (ejecutar_eventos eventos s1)) \<and>
         (bloqueos_locales (ejecutar_eventos eventos s1) (clave_de tipo rid) = Some t0 \<or>
          (\<exists>now net ns tipo' rid'.
             Solicita now net ns tipo' rid' \<in> set eventos \<and>
             clave_de tipo' rid' = clave_de tipo rid \<and>
             bloqueos_locales (ejecutar_eventos eventos s1) (clave_de tipo rid) = Some now)) \<and>
         ((\<forall>now net ns tipo' rid'.
             Solicita now net ns tipo' rid' \<in> set eventos \<longrightarrow>
             clave_de tipo' rid' \<noteq> clave_de tipo rid) \<longrightarrow>
          bloqueos_locales (ejecutar_eventos eventos s1) (clave_de tipo rid) = Some t0)"
proof -
  have "bloqueos_locales s1 (clave_de tipo rid) = Some t0"
    using assms(1) by (auto simp: handle_client_def Let_def split: if_splits)
  from ejecutar_eventos_stays [OF this assms(2)] show ?thesis
    by blast
qed

text \<open>
  Doctor 1 is approved for a peer at time 0; the node then approves bed 1 at time 31 and
  reads an empty message at time 3600: the entry of doctor 1 still has time 0. When the
  node instead locks doctor 1 for itself at time 50, the entry stays and has time 50.
\<close>

theorem bloqueo_provisional_sin_caducidad_witness:
  "bloqueos_locales
     (ejecutar_eventos
        [Recibe 31 (SOLICITAR_BLOQUEO_ATOMICO ''CAMA'' 1), Recibe 3600 VACIO]
        \<lparr>bloqueos_locales = [clave_de ''DOCTOR'' 1 \<mapsto> 0],
         bd = \<lparr>PACIENTES = [], DOCTORES = [1 \<mapsto> 1], CAMAS_ATENCION = [1 \<mapsto> (0, None)],
               VISITAS_EMERGENCIA = [], CONSECUTIVOS_VISITAS = Map.empty\<rparr>\<rparr>)
     (clave_de ''DOCTOR'' 1) = Some 0 \<and>
   bloqueos_locales
     (ejecutar_eventos
        [Solicita 50 (\<lambda>p. SinRespuesta) [] ''DOCTOR'' 1]
        \<lparr>bloqueos_locales = [clave_de ''DOCTOR'' 1 \<mapsto> 0],
         bd = \<lparr>PACIENTES = [], DOCTORES = [1 \<mapsto> 1], CAMAS_ATENCION = [1 \<mapsto> (0, None)],
               VISITAS_EMERGENCIA = [], CONSECUTIVOS_VISITAS = Map.empty\<rparr>\<rparr>)
     (clave_de ''DOCTOR'' 1) = Some 50"
proof -
  have granted: "handle_client 0 (SOLICITAR_BLOQUEO_ATOMICO ''DOCTOR'' 1)
      \<lparr>bloqueos_locales = Map.empty,
       bd = \<lparr>PACIENTES = [], DOCTORES = [1 \<mapsto> 1], CAMAS_ATENCION = [1 \<mapsto> (0, None)],
             VISITAS_EMERGENCIA = [], CONSECUTIVOS_VISITAS = Map.empty\<rparr>\<rparr> =
    (Some ''BLOQUEO_APROBADO'',
      \<lparr>bloqueos_locales = [clave_de ''DOCTOR'' 1 \<mapsto> 0],
         bd = \<lparr>PACIENTES = [], DOCTORES = [1 \<mapsto> 1], CAMAS_ATENCION = [1 \<mapsto> (0, None)],
               VISITAS_EMERGENCIA = [], CONSECUTIVOS_VISITAS = Map.empty\<rparr>\<rparr>)"
    by (simp add: handle_client_def verificar_recurso_local_def Let_def)
  have others: "\<forall>e \<in> set [Recibe 31 (SOLICITAR_BLOQUEO_ATOMICO ''CAMA'' 1), Recibe 3600 VACIO].
      \<not> libera_clave (clave_de ''DOCTOR'' 1) e"
    by simp
  have none: "\<forall>now net ns tipo' rid'.
      Solicita now net ns tipo' rid'
        \<in> set [Recibe 31 (SOLICITAR_BLOQUEO_ATOMICO ''CAMA'' 1), Recibe 3600 VACIO] \<longrightarrow>
      clave_de tipo' rid' \<noteq> clave_de ''DOCTOR'' 1"
    by simp
  have own: "\<forall>e \<in> set [Solicita 50 (\<lambda>p. SinRespuesta) [] ''DOCTOR'' 1].
      \<not> libera_clave (clave_de ''DOCTOR'' 1) e"
    by simp
  have first: "bloqueos_locales
     (ejecutar_eventos
        [Recibe 31 (SOLICITAR_BLOQUEO_ATOMICO ''CAMA'' 1), Recibe 3600 VACIO]
        \<lparr>bloqueos_locales = [clave_de ''DOCTOR'' 1 \<mapsto> 0],
         bd = \<lparr>PACIENTES = [], DOCTORES = [1 \<mapsto> 1], CAMAS_ATENCION = [1 \<mapsto> (0, None)],
               VISITAS_EMERGENCIA = [], CONSECUTIVOS_VISITAS = Map.empty\<rparr>\<rparr>)
     (clave_de ''DOCTOR'' 1) = Some 0"
    using bloqueo_provisional_sin_caducidad [OF granted others] none by blast
  have second: "bloqueos_locales
     (ejecutar_eventos
        [Solicita 50 (\<lambda>p. SinRespuesta) [] ''DOCTOR'' 1]
        \<lparr>bloqueos_locales = [clave_de ''DOCTOR'' 1 \<mapsto> 0],
         bd = \<lparr>PACIENTES = [], DOCTORES = [1 \<mapsto> 1], CAMAS_ATENCION = [1 \<mapsto> (0, None)],
               VISITAS_EMERGENCIA = [], CONSECUTIVOS_VISITAS = Map.empty\<rparr>\<rparr>)
     (clave_de ''DOCTOR'' 1) = Some 50"
    using bloqueo_provisional_sin_caducidad [OF granted own]
    by (simp add: ejecutar_eventos_def solicitar_bloqueo_distribuido_def
        verificar_recurso_local_def)
  from first second show ?thesis ..
qed

text \<open>
  The claim as written fails: the entry for doctor 1, recorded at time 0 when the peer's
  request was approved and never released, is still in the table after the node has
  handled messages at times 31 and 3600.
\<close>

theorem bloqueo_provisional_caducidad_counterexample:
  "bloqueos_locales
     (ejecutar_eventos
        [Recibe 0 (SOLICITAR_BLOQUEO_ATOMICO ''DOCTOR'' 1),
         Recibe 31 (SOLICITAR_BLOQUEO_ATOMICO ''CAMA'' 1),
         Recibe 3600 VACIO]
        \<lparr>bloqueos_locales = Map.empty,
         bd = \<lparr>PACIENTES = [], DOCTORES = [1 \<mapsto> 1], CAMAS_ATENCION = [1 \<mapsto> (0, None)],
               VISITAS_EMERGENCIA = [], CONSECUTIVOS_VISITAS = Map.empty\<rparr>\<rparr>)
     ''DOCTOR_1'' = Some 0"
  by (simp add: ejecutar_eventos_def handle_client_def verificar_recurso_local_def
      clave_de_def str_int_1 Let_def)

section \<open>Properties of the leader write path and of replication\<close>

lemma campos_completos:
  "campos_faltantes d = [] \<longleftrightarrow>
     s_id_paciente d \<noteq> None \<and> s_id_doctor d \<noteq> None \<and> s_id_cama d \<noteq> None \<and>
     s_id_trabajador d \<noteq> None \<and> s_id_sala d \<noteq> None \<and> s_sintomas d \<noteq> None"
  by (simp add: campos_faltantes_def)

text \<open>
  Claim C6. A create-visit request with all fields, handled under \<open>visit_creation_lock\<close>:
  when the requested doctor's row says not available, or the doctor is available and the
  requested bed's row says occupied, the answer is 409 with an error text, no visit is
  inserted and the store (doctors, beds, visits, counters) is exactly as before.
\<close>

theorem create_visit_rechaza_recurso_ocupado:
  assumes "campos_faltantes d = []"
    and "doctores st (the (s_id_doctor d)) = Some doc"
    and "\<not> disponible doc \<or>
         (\<exists>cam. camas st (the (s_id_cama d)) = Some cam \<and> ocupada cam)"
  shows "fst (fst (create_visit_distributed hoy now (Some d) st)) = 409 \<and>
         (\<exists>e. snd (fst (create_visit_distributed hoy now (Some d) st)) = Fallo e) \<and>
         snd (create_visit_distributed hoy now (Some d) st) = st"
  using assms by (auto simp: create_visit_distributed_def cuerpo_vacio_def Let_def)

text \<open>
  Doctor 7 is not available: the request is refused and the store is unchanged. Doctor 7 is
  available and bed 3 is occupied: the same.
\<close>

theorem create_visit_rechaza_recurso_ocupado_witness:
  "create_visit_distributed 0 0
      (Some \<lparr>s_id_paciente = Some 5, s_id_doctor = Some 7, s_id_cama = Some 3,
       s_id_trabajador = Some 1, s_id_sala = Some 1, s_sintomas = Some ''fever'', s_otras_claves = False\<rparr>)
      \<lparr>doctores = [7 \<mapsto> \<lparr>d_nombre = ''Ruiz'', disponible = False\<rparr>],
       camas = [3 \<mapsto> \<lparr>numero = 3, ocupada = False, cama_id_paciente = None\<rparr>],
       pacientes = {5}, trabajadores = {1}, visitas = [], consecutivos = []\<rparr> =
     ((409, Fallo ''Doctor Ruiz is not available''),
      \<lparr>doctores = [7 \<mapsto> \<lparr>d_nombre = ''Ruiz'', disponible = False\<rparr>],
       camas = [3 \<mapsto> \<lparr>numero = 3, ocupada = False, cama_id_paciente = None\<rparr>],
       pacientes = {5}, trabajadores = {1}, visitas = [], consecutivos = []\<rparr>) \<and>
   create_visit_distributed 0 0
      (Some \<lparr>s_id_paciente = Some 5, s_id_doctor = Some 7, s_id_cama = Some 3,
       s_id_trabajador = Some 1, s_id_sala = Some 1, s_sintomas = Some ''fever'', s_otras_claves = False\<rparr>)
      \<lparr>doctores = [7 \<mapsto> \<lparr>d_nombre = ''Ruiz'', disponible = True\<rparr>],
       camas = [3 \<mapsto> \<lparr>numero = 3, ocupada = True, cama_id_paciente = Some 9\<rparr>],
       pacientes = {5}, trabajadores = {1}, visitas = [], consecutivos = []\<rparr> =
     ((409, Fallo ''Bed 3 is occupied''),
      \<lparr>doctores = [7 \<mapsto> \<lparr>d_nombre = ''Ruiz'', disponible = True\<rparr>],
       camas = [3 \<mapsto> \<lparr>numero = 3, ocupada = True, cama_id_paciente = Some 9\<rparr>],
       pacientes = {5}, trabajadores = {1}, visitas = [], consecutivos = []\<rparr>)"
proof -
  have fields: "campos_faltantes
      \<lparr>s_id_paciente = Some 5, s_id_doctor = Some 7, s_id_cama = Some 3,
       s_id_trabajador = Some 1, s_id_sala = Some 1, s_sintomas = Some ''fever'', s_otras_claves = False\<rparr> = []"
    by (simp add: campos_faltantes_def)
  have doc_a: "doctores
      \<lparr>doctores = [7 \<mapsto> \<lparr>d_nombre = ''Ruiz'', disponible = False\<rparr>],
       camas = [3 \<mapsto> \<lparr>numero = 3, ocupada = False, cama_id_paciente = None\<rparr>],
       pacientes = {5}, trabajadores = {1}, visitas = [], consecutivos = []\<rparr>
      (the (s_id_doctor
        \<lparr>s_id_paciente = Some 5, s_id_doctor = Some 7, s_id_cama = Some 3,
       s_id_trabajador = Some 1, s_id_sala = Some 1, s_sintomas = Some ''fever'', s_otras_claves = False\<rparr>)) =
      Some \<lparr>d_nombre = ''Ruiz'', disponible = False\<rparr>"
    by simp
  have busy_a: "\<not> disponible \<lparr>d_nombre = ''Ruiz'', disponible = False\<rparr> \<or>
      (\<exists>cam. camas
        \<lparr>doctores = [7 \<mapsto> \<lparr>d_nombre = ''Ruiz'', disponible = False\<rparr>],
       camas = [3 \<mapsto> \<lparr>numero = 3, ocupada = False, cama_id_paciente = None\<rparr>],
       pacientes = {5}, trabajadores = {1}, visitas = [], consecutivos = []\<rparr>
        (the (s_id_cama
          \<lparr>s_id_paciente = Some 5, s_id_doctor = Some 7, s_id_cama = Some 3,
       s_id_trabajador = Some 1, s_id_sala = Some 1, s_sintomas = Some ''fever'', s_otras_claves = False\<rparr>)) = Some cam \<and>
        ocupada cam)"
    by simp
  have doc_b: "doctores
      \<lparr>doctores = [7 \<mapsto> \<lparr>d_nombre = ''Ruiz'', disponible = True\<rparr>],
       camas = [3 \<mapsto> \<lparr>numero = 3, ocupada = True, cama_id_paciente = Some 9\<rparr>],
       pacientes = {5}, trabajadores = {1}, visitas = [], consecutivos = []\<rparr>
      (the (s_id_doctor
        \<lparr>s_id_paciente = Some 5, s_id_doctor = Some 7, s_id_cama = Some 3,
       s_id_trabajador = Some 1, s_id_sala = Some 1, s_sintomas = Some ''fever'', s_otras_claves = False\<rparr>)) =
      Some \<lparr>d_nombre = ''Ruiz'', disponible = True\<rparr>"
    by simp
  have busy_b: "\<not> disponible \<lparr>d_nombre = ''Ruiz'', disponible = True\<rparr> \<or>
      (\<exists>cam. camas
        \<lparr>doctores = [7 \<mapsto> \<lparr>d_nombre = ''Ruiz'', disponible = True\<rparr>],
       camas = [3 \<mapsto> \<lparr>numero = 3, ocupada = True, cama_id_paciente = Some 9\<rparr>],
       pacientes = {5}, trabajadores = {1}, visitas = [], consecutivos = []\<rparr>
        (the (s_id_cama
          \<lparr>s_id_paciente = Some 5, s_id_doctor = Some 7, s_id_cama = Some 3,
       s_id_trabajador = Some 1, s_id_sala = Some 1, s_sintomas = Some ''fever'', s_otras_claves = False\<rparr>)) = Some cam \<and>
        ocupada cam)"
    by simp
  have three: "str_int 3 = ''3''"
    by (simp add: str_int_def digits_of.simps digit_char_def)
  have a: "create_visit_distributed 0 0
      (Some \<lparr>s_id_paciente = Some 5, s_id_doctor = Some 7, s_id_cama = Some 3,
       s_id_trabajador = Some 1, s_id_sala = Some 1, s_sintomas = Some ''fever'', s_otras_claves = False\<rparr>)
      \<lparr>doctores = [7 \<mapsto> \<lparr>d_nombre = ''Ruiz'', disponible = False\<rparr>],
       camas = [3 \<mapsto> \<lparr>numero = 3, ocupada = False, cama_id_paciente = None\<rparr>],
       pacientes = {5}, trabajadores = {1}, visitas = [], consecutivos = []\<rparr> =
     ((409, Fallo ''Doctor Ruiz is not available''),
      \<lparr>doctores = [7 \<mapsto> \<lparr>d_nombre = ''Ruiz'', disponible = False\<rparr>],
       camas = [3 \<mapsto> \<lparr>numero = 3, ocupada = False, cama_id_paciente = None\<rparr>],
       pacientes = {5}, trabajadores = {1}, visitas = [], consecutivos = []\<rparr>)"
    using create_visit_rechaza_recurso_ocupado [OF fields doc_a busy_a, of 0 0]
    by (auto simp: prod_eq_iff create_visit_distributed_def cuerpo_vacio_def campos_faltantes_def Let_def)
  have b: "create_visit_distributed 0 0
      (Some \<lparr>s_id_paciente = Some 5, s_id_doctor = Some 7, s_id_cama = Some 3,
       s_id_trabajador = Some 1, s_id_sala = Some 1, s_sintomas = Some ''fever'', s_otras_claves = False\<rparr>)
      \<lparr>doctores = [7 \<mapsto> \<lparr>d_nombre = ''Ruiz'', disponible = True\<rparr>],
       camas = [3 \<mapsto> \<lparr>numero = 3, ocupada = True, cama_id_paciente = Some 9\<rparr>],
       pacientes = {5}, trabajadores = {1}, visitas = [], consecutivos = []\<rparr> =
     ((409, Fallo ''Bed 3 is occupied''),
      \<lparr>doctores = [7 \<mapsto> \<lparr>d_nombre = ''Ruiz'', disponible = True\<rparr>],
       camas = [3 \<mapsto> \<lparr>numero = 3, ocupada = True, cama_id_paciente = Some 9\<rparr>],
       pacientes = {5}, trabajadores = {1}, visitas = [], consecutivos = []\<rparr>)"
    using create_visit_rechaza_recurso_ocupado [OF fields doc_b busy_b, of 0 0]
    by (auto simp: prod_eq_iff create_visit_distributed_def cuerpo_vacio_def campos_faltantes_def Let_def three)
  from a b show ?thesis ..
qed

lemma find_incrementar_primero_same:
  "find (\<lambda>r. cs_id_sala r = sala \<and> cs_fecha r = hoy) rs = Some r \<Longrightarrow>
   find (\<lambda>r. cs_id_sala r = sala \<and> cs_fecha r = hoy) (incrementar_primero sala hoy rs) =
     Some (r\<lparr>cs_consecutivo := cs_consecutivo r + 1\<rparr>)"
  by (induction rs) (auto split: if_splits)

lemma find_incrementar_primero_other:
  "(sala', hoy') \<noteq> (sala, hoy) \<Longrightarrow>
   find (\<lambda>r. cs_id_sala r = sala \<and> cs_fecha r = hoy) (incrementar_primero sala' hoy' rs) =
   find (\<lambda>r. cs_id_sala r = sala \<and> cs_fecha r = hoy) rs"
  by (induction rs) auto

lemma find_append_other:
  "\<not> P x \<Longrightarrow> find P (rs @ [x]) = find P rs"
  by (induction rs) auto

lemma find_append_none:
  "find P rs = None \<Longrightarrow> find P (rs @ [x]) = (if P x then Some x else None)"
  by (induction rs) (auto split: if_splits)

lemma get_next_consecutivo_valor:
  "fst (get_next_consecutivo hoy sala st) = consecutivo_actual hoy sala st + 1"
  by (simp add: get_next_consecutivo_def consecutivo_actual_def split: option.splits)

lemma get_next_consecutivo_guarda:
  "consecutivo_actual hoy sala (snd (get_next_consecutivo hoy sala st)) =
     consecutivo_actual hoy sala st + 1"
  by (auto simp: get_next_consecutivo_def consecutivo_actual_def find_append_none
      find_incrementar_primero_same split: option.splits)

lemma get_next_consecutivo_otro:
  "(sala', hoy') \<noteq> (sala, hoy) \<Longrightarrow>
   consecutivo_actual hoy sala (snd (get_next_consecutivo hoy' sala' st)) =
     consecutivo_actual hoy sala st"
  by (auto simp: get_next_consecutivo_def consecutivo_actual_def find_append_other
      find_incrementar_primero_other split: option.splits)

lemma fold_otros_consecutivo:
  "\<forall>(h, s) \<in> set otras. (s, h) \<noteq> (sala, hoy) \<Longrightarrow>
   consecutivo_actual hoy sala (fold (\<lambda>(h, s) st. snd (get_next_consecutivo h s st)) otras st) =
     consecutivo_actual hoy sala st"
proof (induction otras arbitrary: st)
  case Nil
  show ?case by simp
next
  case (Cons a otras)
  obtain h s where a: "a = (h, s)" by (cases a)
  with Cons.prems have "(s, h) \<noteq> (sala, hoy)" by simp
  then have "consecutivo_actual hoy sala (snd (get_next_consecutivo h s st)) =
      consecutivo_actual hoy sala st"
    by (rule get_next_consecutivo_otro)
  with Cons.IH [of "snd (get_next_consecutivo h s st)"] Cons.prems a show ?case
    by simp
qed

lemma ejecutar_otros_consecutivos:
  "comando \<noteq> INCREMENTAR_CONSECUTIVO \<Longrightarrow>
   CONSECUTIVOS_VISITAS (snd (ejecutar_transaccion_local now comando db)) = CONSECUTIVOS_VISITAS db"
  by (cases comando) (auto simp: ejecutar_transaccion_local_def Let_def split: list.splits)

lemma fold_ejecutar_otros_consecutivos:
  "\<forall>(t, c) \<in> set otras. c \<noteq> INCREMENTAR_CONSECUTIVO \<Longrightarrow>
   CONSECUTIVOS_VISITAS (fold (\<lambda>(t, c) db. snd (ejecutar_transaccion_local t c db)) otras db) =
     CONSECUTIVOS_VISITAS db"
proof (induction otras arbitrary: db)
  case Nil
  show ?case by simp
next
  case (Cons a otras)
  obtain t c where a: "a = (t, c)" by (cases a)
  with Cons.prems have "c \<noteq> INCREMENTAR_CONSECUTIVO" by simp
  then have "CONSECUTIVOS_VISITAS (snd (ejecutar_transaccion_local t c db)) = CONSECUTIVOS_VISITAS db"
    by (rule ejecutar_otros_consecutivos)
  with Cons.IH [of "snd (ejecutar_transaccion_local t c db)"] Cons.prems a show ?case
    by simp
qed

lemma incrementar_consecutivo_valor:
  "fst (ejecutar_transaccion_local now INCREMENTAR_CONSECUTIVO db) = Entero (ultimo_consecutivo_de db + 1)"
  "ultimo_consecutivo_de (snd (ejecutar_transaccion_local now INCREMENTAR_CONSECUTIVO db)) =
     ultimo_consecutivo_de db + 1"
  by (simp_all add: ejecutar_transaccion_local_def ultimo_consecutivo_de_def Let_def
      split: option.splits)

lemma length_digits_of_step:
  "10 \<le> n \<Longrightarrow> length (digits_of n) = Suc (length (digits_of (n div 10)))"
  by (subst digits_of.simps) simp

lemma length_digits_of_small: "n < 10 \<Longrightarrow> length (digits_of n) = 1"
  by (subst digits_of.simps) simp

lemma length_digits_of_pos: "0 < length (digits_of n)"
  by (subst digits_of.simps) simp

lemma length_digits_of_le3: "n < 1000 \<Longrightarrow> length (digits_of n) \<le> 3"
proof -
  assume n: "n < 1000"
  show ?thesis
  proof (cases "n < 10")
    case True
    then show ?thesis by (simp add: length_digits_of_small)
  next
    case False
    then have s1: "length (digits_of n) = Suc (length (digits_of (n div 10)))"
      by (simp add: length_digits_of_step)
    show ?thesis
    proof (cases "n div 10 < 10")
      case True
      then show ?thesis by (simp add: s1 length_digits_of_small)
    next
      case False
      then have s2: "length (digits_of (n div 10)) = Suc (length (digits_of (n div 10 div 10)))"
        by (simp add: length_digits_of_step)
      have "n div 10 div 10 < 10" using n by simp
      then show ?thesis by (simp add: s1 s2 length_digits_of_small)
    qed
  qed
qed

lemma length_digits_of_gt3: "1000 \<le> n \<Longrightarrow> 3 < length (digits_of n)"
proof -
  assume n: "1000 \<le> n"
  then have a: "10 \<le> n" and b: "10 \<le> n div 10" and c: "10 \<le> n div 10 div 10"
    by simp_all
  show ?thesis
    using length_digits_of_pos [of "n div 10 div 10 div 10"]
    by (simp add: length_digits_of_step [OF a] length_digits_of_step [OF b]
        length_digits_of_step [OF c])
qed

lemma length_format_03d_small: "0 \<le> c \<Longrightarrow> c < 1000 \<Longrightarrow> length (format_03d c) = 3"
  using length_digits_of_le3 [of "nat c"] by (simp add: format_03d_def zfill_def)

lemma format_03d_large:
  "1000 \<le> c \<Longrightarrow> format_03d c = str_int c \<and> 3 < length (format_03d c)"
proof -
  assume c: "1000 \<le> c"
  then have "1000 \<le> nat c" by simp
  from length_digits_of_gt3 [OF this] c show ?thesis
    by (simp add: format_03d_def zfill_def str_int_def)
qed

lemma consecutivo_actual_recursos [simp]:
  "consecutivo_actual hoy sala (st\<lparr>doctores := ds, camas := cs\<rparr>) = consecutivo_actual hoy sala st"
  by (simp add: consecutivo_actual_def)

lemma get_next_consecutivo_sesion_directo:
  "get_next_consecutivo_sesion False hoy sala st = Inr (get_next_consecutivo hoy sala st)"
  by (simp add: get_next_consecutivo_sesion_def session_flush_def case_prod_beta)

lemma get_next_consecutivo_sesion_en_flush:
  "get_next_consecutivo_sesion True hoy sala st = Inl InvalidRequestError"
  by (simp add: get_next_consecutivo_sesion_def session_flush_def case_prod_beta)

lemma generate_folio_sin_folio:
  "folio_vacio (folio target) \<Longrightarrow> generate_folio hoy target st = Inl InvalidRequestError"
  by (simp add: generate_folio_def get_next_consecutivo_sesion_en_flush)

lemma generate_folio_con_folio:
  "\<not> folio_vacio (folio target) \<Longrightarrow> generate_folio hoy target st = Inr (target, st)"
  by (simp add: generate_folio_def)

lemma insertar_visita_sin_folio:
  "folio_vacio (folio target) \<Longrightarrow> insertar_visita hoy target st = Inl InvalidRequestError"
  by (simp add: insertar_visita_def generate_folio_sin_folio)

lemma insertar_visita_con_folio:
  "\<not> folio_vacio (folio target) \<Longrightarrow>
   insertar_visita hoy target st =
     (if folio target \<in> set (map folio (visitas st)) then Inl IntegrityError
      else Inr (target, st\<lparr>visitas := visitas st @ [target]\<rparr>))"
  by (simp add: insertar_visita_def generate_folio_con_folio)

lemma filter_folio_le1:
  "distinct (map folio vs) \<Longrightarrow> length (filter (\<lambda>v. folio v = k) vs) \<le> 1"
proof (induction vs)
  case Nil
  show ?case by simp
next
  case (Cons v vs)
  show ?case
  proof (cases "folio v = k")
    case True
    with Cons.prems have "k \<notin> folio ` set vs" by simp
    then have "\<forall>w \<in> set vs. folio w \<noteq> k" by (metis imageI)
    then have "filter (\<lambda>v. folio v = k) vs = []" by (simp add: filter_empty_conv)
    with True show ?thesis by simp
  next
    case False
    with Cons show ?thesis by simp
  qed
qed

lemma filter_folio_eq1:
  assumes "distinct (map folio vs)" and "v \<in> set vs" and "folio v = k"
  shows "length (filter (\<lambda>v. folio v = k) vs) = 1"
proof -
  have "v \<in> set (filter (\<lambda>v. folio v = k) vs)" using assms(2,3) by simp
  then have "0 < length (filter (\<lambda>v. folio v = k) vs)" by (rule length_pos_if_in_set)
  with filter_folio_le1 [OF assms(1), of k] show ?thesis by linarith
qed

text \<open>
  The unique constraint on \<open>folio\<close> is kept by every insert, so it holds in every store that
  the endpoints build.
\<close>

lemma insertar_visita_folios_unicos:
  assumes "distinct (map folio (visitas st))"
    and "insertar_visita hoy target st = Inr (v, st')"
  shows "distinct (map folio (visitas st'))"
proof (cases "folio_vacio (folio target)")
  case True
  with assms(2) show ?thesis
    by (simp add: insertar_visita_sin_folio)
next
  case False
  with assms(2) have "folio v \<notin> set (map folio (visitas st))"
    and "visitas st' = visitas st @ [v]"
    by (auto simp: insertar_visita_con_folio split: if_splits)
  with assms(1) show ?thesis
    by simp
qed

lemma replicate_visit_existente:
  "find (\<lambda>v. folio v = r_folio d) (visitas st) = Some v \<Longrightarrow>
   replicate_visit hoy now d st = ((200, True), st)"
  by (simp add: replicate_visit_def)

lemma replicate_visit_nueva:
  assumes "find (\<lambda>v. folio v = r_folio d) (visitas st) = None"
    and "r_folio d = Some f" and "f \<noteq> ''''"
  shows "fst (replicate_visit hoy now d st) = (201, True) \<and>
         (\<exists>v. folio v = Some f \<and>
              visitas (snd (replicate_visit hoy now d st)) = visitas st @ [v])"
proof -
  from assms(1) have "\<forall>v \<in> set (visitas st). folio v \<noteq> r_folio d"
    by (simp add: find_None_iff)
  with assms(2) have "Some f \<notin> folio ` set (visitas st)" by force
  with assms show ?thesis
    by (simp add: replicate_visit_def Let_def insertar_visita_con_folio folio_vacio_def)
qed

text \<open>
  Claim C3. A replicate-visit body that carries a folio (the leader's folios are never
  empty), sent twice to a receiver whose stored folios are unique: the first call answers
  success, the second answers 200 success and leaves the store exactly as the first call
  left it, and the store then holds exactly one visit with that folio.
\<close>

theorem replicate_visit_idempotente:
  assumes "r_folio d = Some f" and "f \<noteq> ''''" and "distinct (map folio (visitas st))"
  shows "snd (fst (replicate_visit hoy1 now1 d st)) \<and>
         replicate_visit hoy2 now2 d (snd (replicate_visit hoy1 now1 d st)) =
           ((200, True), snd (replicate_visit hoy1 now1 d st)) \<and>
         length (filter (\<lambda>v. folio v = Some f)
           (visitas (snd (replicate_visit hoy2 now2 d (snd (replicate_visit hoy1 now1 d st)))))) = 1"
proof (cases "find (\<lambda>v. folio v = r_folio d) (visitas st)")
  case None
  from replicate_visit_nueva [OF None assms(1,2), of hoy1 now1] obtain v where
    r1: "fst (replicate_visit hoy1 now1 d st) = (201, True)" and
    v: "folio v = Some f" and
    vs: "visitas (snd (replicate_visit hoy1 now1 d st)) = visitas st @ [v]"
    by blast
  from None have old: "filter (\<lambda>v. folio v = Some f) (visitas st) = []"
    by (simp add: find_None_iff filter_empty_conv assms(1))
  have "find (\<lambda>v. folio v = r_folio d) (visitas (snd (replicate_visit hoy1 now1 d st))) = Some v"
    using None v by (simp add: vs find_append_none assms(1))
  then have r2: "replicate_visit hoy2 now2 d (snd (replicate_visit hoy1 now1 d st)) =
      ((200, True), snd (replicate_visit hoy1 now1 d st))"
    by (rule replicate_visit_existente)
  show ?thesis
    by (simp add: r1 r2 vs old v)
next
  case (Some v)
  then have v: "v \<in> set (visitas st)" "folio v = Some f"
    by (auto simp: find_Some_iff assms(1) in_set_conv_nth)
  have r: "replicate_visit h n d st = ((200, True), st)" for h n
    using Some by (rule replicate_visit_existente)
  show ?thesis
    by (simp add: r filter_folio_eq1 [OF assms(3) v])
qed

text \<open>The visit \<open>5+2+1+001\<close> replicated twice to an empty receiver.\<close>

theorem replicate_visit_idempotente_witness:
  "replicate_visit 0 11
     \<lparr>r_folio = Some ''5+2+1+001'', r_id_paciente = 5, r_id_doctor = 2, r_id_cama = 3,
      r_id_trabajador = 1, r_id_sala = 1, r_sintomas = ''chest pain'', r_diagnostico = None,
      r_estado = ''activa'', r_timestamp = Some 7, r_fecha_cierre = None\<rparr>
     (snd (replicate_visit 0 10
        \<lparr>r_folio = Some ''5+2+1+001'', r_id_paciente = 5, r_id_doctor = 2, r_id_cama = 3,
         r_id_trabajador = 1, r_id_sala = 1, r_sintomas = ''chest pain'', r_diagnostico = None,
         r_estado = ''activa'', r_timestamp = Some 7, r_fecha_cierre = None\<rparr>
        \<lparr>doctores = [2 \<mapsto> \<lparr>d_nombre = ''Ruiz'', disponible = True\<rparr>],
         camas = [3 \<mapsto> \<lparr>numero = 3, ocupada = False, cama_id_paciente = None\<rparr>],
         pacientes = {5}, trabajadores = {1}, visitas = [], consecutivos = []\<rparr>)) =
   ((200, True),
    snd (replicate_visit 0 10
        \<lparr>r_folio = Some ''5+2+1+001'', r_id_paciente = 5, r_id_doctor = 2, r_id_cama = 3,
         r_id_trabajador = 1, r_id_sala = 1, r_sintomas = ''chest pain'', r_diagnostico = None,
         r_estado = ''activa'', r_timestamp = Some 7, r_fecha_cierre = None\<rparr>
        \<lparr>doctores = [2 \<mapsto> \<lparr>d_nombre = ''Ruiz'', disponible = True\<rparr>],
         camas = [3 \<mapsto> \<lparr>numero = 3, ocupada = False, cama_id_paciente = None\<rparr>],
         pacientes = {5}, trabajadores = {1}, visitas = [], consecutivos = []\<rparr>))"
proof -
  have f: "r_folio
      \<lparr>r_folio = Some ''5+2+1+001'', r_id_paciente = 5, r_id_doctor = 2, r_id_cama = 3,
       r_id_trabajador = 1, r_id_sala = 1, r_sintomas = ''chest pain'', r_diagnostico = None,
       r_estado = ''activa'', r_timestamp = Some 7, r_fecha_cierre = None\<rparr> = Some ''5+2+1+001''"
    by simp
  have ne: "''5+2+1+001'' \<noteq> ''''"
    by simp
  have u: "distinct (map folio (visitas
      \<lparr>doctores = [2 \<mapsto> \<lparr>d_nombre = ''Ruiz'', disponible = True\<rparr>],
       camas = [3 \<mapsto> \<lparr>numero = 3, ocupada = False, cama_id_paciente = None\<rparr>],
       pacientes = {5}, trabajadores = {1}, visitas = [], consecutivos = []\<rparr>))"
    by simp
  from replicate_visit_idempotente [OF f ne u, of 0 10 0 11] show ?thesis
    by blast
qed


lemma str_int_digit [simp]:
  "str_int 1 = ''1''" "str_int 2 = ''2''" "str_int 5 = ''5''"
  by (simp_all add: str_int_def digits_of.simps digit_char_def)

lemma format_03d_1: "format_03d 1 = ''001''"
  by (simp add: format_03d_def zfill_def digits_of.simps digit_char_def numeral_2_eq_2)

text \<open>
  The text that the listener's f-string builds for patient 5, doctor 2, sala 1 and the
  consecutivo 1.
\<close>

lemma folio_texto_escenario:
  "str_int 5 @ ''+'' @ str_int 2 @ ''+'' @ str_int 1 @ ''+'' @ format_03d 1 = ''5+2+1+001''"
  by (simp add: format_03d_1)

text \<open>
  The create-visit endpoint never answers 201 and never changes the store: its only
  insert is of a visit without folio, whose listener raises inside the flush.
\<close>

lemma create_visit_nunca_crea:
  "fst (fst (create_visit_distributed hoy now data st)) \<noteq> 201 \<and>
   snd (create_visit_distributed hoy now data st) = st"
  by (auto simp: create_visit_distributed_def Let_def insertar_visita_sin_folio folio_vacio_def
      split: option.splits)

text \<open>
  Claim C1 says that a visit inserted through the leader write path with no folio gets the
  folio \<open>"{id_paciente}+{id_doctor}+{id_sala}+{NNN}"\<close>, and that with the sala sequence at 0
  the request for patient 5, doctor 2, sala 1 yields \<open>5+2+1+001\<close>. On the leader write path
  the folio is minted by the \<open>before_insert\<close> listener, whose \<open>get_next_consecutivo\<close> asks for
  a flush inside the flush of the commit: the commit raises, and the request of the
  scenario is answered 500 with the store as it was, without any folio.
\<close>

theorem create_visit_no_genera_folio:
  "create_visit_distributed 0 0
      (Some \<lparr>s_id_paciente = Some 5, s_id_doctor = Some 2, s_id_cama = Some 3,
             s_id_trabajador = Some 1, s_id_sala = Some 1, s_sintomas = Some ''chest pain'',
             s_otras_claves = False\<rparr>)
      \<lparr>doctores = [2 \<mapsto> \<lparr>d_nombre = ''Ruiz'', disponible = True\<rparr>],
       camas = [3 \<mapsto> \<lparr>numero = 3, ocupada = False, cama_id_paciente = None\<rparr>],
       pacientes = {5}, trabajadores = {1}, visitas = [], consecutivos = []\<rparr> =
     ((500, Excepcion InvalidRequestError),
      \<lparr>doctores = [2 \<mapsto> \<lparr>d_nombre = ''Ruiz'', disponible = True\<rparr>],
       camas = [3 \<mapsto> \<lparr>numero = 3, ocupada = False, cama_id_paciente = None\<rparr>],
       pacientes = {5}, trabajadores = {1}, visitas = [], consecutivos = []\<rparr>)"
  by (simp add: create_visit_distributed_def cuerpo_vacio_def campos_faltantes_def Let_def
      insertar_visita_def generate_folio_def folio_vacio_def get_next_consecutivo_sesion_def
      session_flush_def get_next_consecutivo_def)

text \<open>
  Claim C5, as the code has it. \<open>get_next_consecutivo\<close> keeps one counter for each sala and
  day: a call returns the current value of that sala and day plus one, and the next call
  for the same sala on the same day returns one more, whatever calls for other salas or
  other days come between; a first call on a new day starts again at 1. The counter of a
  socket node (\<open>INCREMENTAR_CONSECUTIVO\<close>) has no date: successive increments return
  successive values, whatever other transactions come between.
\<close>

theorem consecutivo_creciente_por_sala_y_dia:
  "((\<forall>(h, s) \<in> set otras. (s, h) \<noteq> (sala, hoy)) \<longrightarrow>
      fst (get_next_consecutivo hoy sala
             (fold (\<lambda>(h, s) st. snd (get_next_consecutivo h s st)) otras
                (snd (get_next_consecutivo hoy sala st)))) =
        fst (get_next_consecutivo hoy sala st) + 1) \<and>
   fst (get_next_consecutivo hoy sala st) = consecutivo_actual hoy sala st + 1 \<and>
   ((\<forall>(t, c) \<in> set transacciones. c \<noteq> INCREMENTAR_CONSECUTIVO) \<longrightarrow>
      fst (ejecutar_transaccion_local t1 INCREMENTAR_CONSECUTIVO db) =
        Entero (ultimo_consecutivo_de db + 1) \<and>
      fst (ejecutar_transaccion_local t2 INCREMENTAR_CONSECUTIVO
             (fold (\<lambda>(t, c) db. snd (ejecutar_transaccion_local t c db)) transacciones
                (snd (ejecutar_transaccion_local t1 INCREMENTAR_CONSECUTIVO db)))) =
        Entero (ultimo_consecutivo_de db + 2))"
proof -
  have local: "ultimo_consecutivo_de
      (fold (\<lambda>(t, c) db. snd (ejecutar_transaccion_local t c db)) transacciones db') =
      ultimo_consecutivo_de db'"
    if "\<forall>(t, c) \<in> set transacciones. c \<noteq> INCREMENTAR_CONSECUTIVO" for db'
    using fold_ejecutar_otros_consecutivos [OF that, of db']
    by (simp add: ultimo_consecutivo_de_def)
  show ?thesis
    by (simp add: get_next_consecutivo_valor fold_otros_consecutivo get_next_consecutivo_guarda
        incrementar_consecutivo_valor local)
qed

text \<open>
  Sala 1 on day 0, with a call for sala 2 and a call for sala 1 on day 1 in between: 1, then
  2. A socket node with a \<open>CERRAR_VISITA\<close> in between: 1, then 2.
\<close>

theorem consecutivo_creciente_por_sala_y_dia_witness:
  "fst (get_next_consecutivo 0 1
          (fold (\<lambda>(h, s) st. snd (get_next_consecutivo h s st)) [(0, 2), (1, 1)]
             (snd (get_next_consecutivo 0 1
                \<lparr>doctores = Map.empty, camas = Map.empty, pacientes = {}, trabajadores = {},
                 visitas = [], consecutivos = []\<rparr>)))) = 2 \<and>
   fst (ejecutar_transaccion_local 9 INCREMENTAR_CONSECUTIVO
          (fold (\<lambda>(t, c) db. snd (ejecutar_transaccion_local t c db)) [(5, CERRAR_VISITA ''x'')]
             (snd (ejecutar_transaccion_local 1 INCREMENTAR_CONSECUTIVO
                \<lparr>PACIENTES = [], DOCTORES = Map.empty, CAMAS_ATENCION = Map.empty,
                 VISITAS_EMERGENCIA = [], CONSECUTIVOS_VISITAS = Map.empty\<rparr>)))) = Entero 2"
  using consecutivo_creciente_por_sala_y_dia
    [of "[(0, 2), (1, 1)]" 1 0
        "\<lparr>doctores = Map.empty, camas = Map.empty, pacientes = {}, trabajadores = {},
          visitas = [], consecutivos = []\<rparr>"
        "[(5, CERRAR_VISITA ''x'')]" 1
        "\<lparr>PACIENTES = [], DOCTORES = Map.empty, CAMAS_ATENCION = Map.empty,
          VISITAS_EMERGENCIA = [], CONSECUTIVOS_VISITAS = Map.empty\<rparr>" 9]
  by (simp add: consecutivo_actual_def ultimo_consecutivo_de_def)

text \<open>
  The claim as written fails on "no resets": for sala 1 the calls return 1 and 2 on day 0,
  and the next call, on day 1, returns 1.
\<close>

theorem consecutivo_reinicia_counterexample:
  "fst (get_next_consecutivo 0 1
          (snd (get_next_consecutivo 0 1
             \<lparr>doctores = Map.empty, camas = Map.empty, pacientes = {}, trabajadores = {},
              visitas = [], consecutivos = []\<rparr>))) = 2 \<and>
   fst (get_next_consecutivo 1 1
          (snd (get_next_consecutivo 0 1
             (snd (get_next_consecutivo 0 1
                \<lparr>doctores = Map.empty, camas = Map.empty, pacientes = {}, trabajadores = {},
                 visitas = [], consecutivos = []\<rparr>))))) = 1"
  by (simp add: get_next_consecutivo_def)

end
